theory Spec2Isabelle
  imports Complex_Main
begin

section \<open>Data model\<close>

text \<open>
  The service of \<^verbatim>\<open>src/main.py\<close> keeps one record per task (a JSON file under
  \<^verbatim>\<open>tasks/\<close>, fronted by the in-memory dictionary \<^verbatim>\<open>tasks\<close>), writes encoded results
  to \<^verbatim>\<open>output/\<close> and bounds the number of files kept there.  The program state is
  modelled as one record that every operation takes and returns.
\<close>

datatype TaskStatus = PENDING | PROCESSING | SUCCESS | FAILED

text \<open>
  Exceptions that the modelled code can meet.  Python's own: \<^verbatim>\<open>ZeroDivisionError\<close> (a
  float division by zero), \<^verbatim>\<open>OverflowError\<close> (\<^verbatim>\<open>int\<close> of an infinite float),
  \<^verbatim>\<open>AttributeError\<close> (the class of the object and the attribute it lacks) and
  \<^verbatim>\<open>OSError\<close> (a task file that cannot be written).  The media library's:
  \<^verbatim>\<open>ValueError\<close> from a trim, and whatever else opening or encoding a clip raises.
  \<open>exn_str\<close> is the text that \<^verbatim>\<open>str(e)\<close> gives.
\<close>

datatype exn =
    ZeroDivisionError
  | OverflowError
  | AttributeError string string
  | ValueError string
  | OSError string
  | EngineError string

fun exn_str :: "exn \<Rightarrow> string" where
  "exn_str ZeroDivisionError = ''float division by zero''"
| "exn_str OverflowError = ''cannot convert float infinity to integer''"
| "exn_str (AttributeError cls attr) =
     [CHR 0x27] @ cls @ [CHR 0x27] @ '' object has no attribute ''
     @ [CHR 0x27] @ attr @ [CHR 0x27]"
| "exn_str (ValueError s) = s"
| "exn_str (OSError s) = s"
| "exn_str (EngineError s) = s"

text \<open>
  The task dictionary.  The keys \<^verbatim>\<open>output_file\<close>, \<^verbatim>\<open>file_size\<close> and \<^verbatim>\<open>error\<close> are
  absent until a terminal update adds them.  Time stamps (\<^verbatim>\<open>datetime.now().isoformat()\<close>)
  are readings of the model clock.
\<close>

record task_data =
  task_id :: string
  task_type :: string
  status :: TaskStatus
  created_at :: nat
  updated_at :: nat
  video_filename :: string
  audio_filename :: string
  message :: string
  output_file :: "string option"
  file_size :: "nat option"
  error :: "string option"

text \<open>Keyword arguments accepted by \<^verbatim>\<open>update_task_status\<close> at its call sites.\<close>

datatype kwarg = Message string | Output_file string | File_size nat | Error string

fun apply_kwarg :: "task_data \<Rightarrow> kwarg \<Rightarrow> task_data" where
  "apply_kwarg td (Message s) = td\<lparr>message := s\<rparr>"
| "apply_kwarg td (Output_file s) = td\<lparr>output_file := Some s\<rparr>"
| "apply_kwarg td (File_size n) = td\<lparr>file_size := Some n\<rparr>"
| "apply_kwarg td (Error s) = td\<lparr>error := Some s\<rparr>"

text \<open>An entry of the directory \<^verbatim>\<open>output/\<close>, as \<^verbatim>\<open>glob\<close>, \<^verbatim>\<open>is_file\<close> and \<^verbatim>\<open>stat\<close> see it.\<close>

record entry =
  name :: string
  st_ctime :: nat
  is_file :: bool
  st_size :: nat

text \<open>The three clip variables of a processing run that hold engine resources.\<close>

datatype clip_var = Video_clip | Audio_clip | Final_clip

text \<open>
  The state: the task files, the dictionary \<^verbatim>\<open>tasks\<close>, the entries of \<^verbatim>\<open>output/\<close> in
  the order \<^verbatim>\<open>glob\<close> lists them, the paths present under \<^verbatim>\<open>temp/\<close>, the global
  \<^verbatim>\<open>MAX_OUTPUT_FILES\<close>, the clock, the names of output files whose \<^verbatim>\<open>unlink\<close> raises,
  and the clips that are open (per task).  Writing a task file can fail: \<open>write_count\<close>
  counts the attempts made so far, and \<open>write_raises n\<close> is the exception that attempt
  number \<open>n\<close> meets when \<^verbatim>\<open>open(task_file, 'w')\<close> is refused, if any.  The field
  \<open>written\<close> is a history: it lists, oldest first, every record that \<^verbatim>\<open>save_task\<close> has
  dumped to a task file.
\<close>

record world =
  task_files :: "string \<rightharpoonup> task_data"
  tasks :: "string \<rightharpoonup> task_data"
  output_dir :: "entry list"
  temp_dir :: "string list"
  max_output_files :: int
  clock :: nat
  unlink_raises :: "string \<Rightarrow> bool"
  write_raises :: "nat \<Rightarrow> exn option"
  write_count :: nat
  open_clips :: "(string \<times> clip_var) list"
  written :: "(string \<times> task_data) list"

text \<open>\<^verbatim>\<open>datetime.now()\<close>: reads the clock, which then moves on.\<close>

definition now :: "world \<Rightarrow> nat \<times> world" where
  "now w = (clock w, w\<lparr>clock := Suc (clock w)\<rparr>)"

section \<open>Task store\<close>

text \<open>
  \<^verbatim>\<open>save_task\<close>: when the file cannot be opened for writing the exception leaves the
  function before anything is stored; otherwise the record is dumped and then assigned
  to the dictionary.
\<close>

definition save_task :: "string \<Rightarrow> task_data \<Rightarrow> world \<Rightarrow> exn option \<times> world" where
  "save_task tid td w =
     (let w1 = w\<lparr>write_count := Suc (write_count w)\<rparr>
      in case write_raises w (write_count w) of
           Some e \<Rightarrow> (Some e, w1)
         | None \<Rightarrow>
             (None,
              w1\<lparr>task_files := (task_files w)(tid \<mapsto> td),
                 tasks := (tasks w)(tid \<mapsto> td),
                 written := written w @ [(tid, td)]\<rparr>))"

definition get_task :: "string \<Rightarrow> world \<Rightarrow> task_data option \<times> world" where
  "get_task tid w =
     (case tasks w tid of
        Some td \<Rightarrow> (Some td, w)
      | None \<Rightarrow>
          (case task_files w tid of
             Some td \<Rightarrow> (Some td, w\<lparr>tasks := (tasks w)(tid \<mapsto> td)\<rparr>)
           | None \<Rightarrow> (None, w)))"

text \<open>
  \<^verbatim>\<open>update_task_status\<close>: the dictionary that \<^verbatim>\<open>get_task\<close> returns is the one held in
  \<^verbatim>\<open>tasks\<close>, and it is changed in place before \<^verbatim>\<open>save_task\<close> is called.  When the
  write raises, the exception leaves the function and the changed record stays in
  \<^verbatim>\<open>tasks\<close>.
\<close>

definition update_task_status ::
  "string \<Rightarrow> TaskStatus \<Rightarrow> kwarg list \<Rightarrow> world \<Rightarrow> exn option \<times> world" where
  "update_task_status tid st kwargs w =
     (case get_task tid w of
        (None, w1) \<Rightarrow> (None, w1)
      | (Some td, w1) \<Rightarrow>
          (let td1 = td\<lparr>status := st\<rparr>;
               (t, w2) = now w1;
               td2 = td1\<lparr>updated_at := t\<rparr>;
               td3 = foldl apply_kwarg td2 kwargs;
               w3 = w2\<lparr>tasks := (tasks w2)(tid \<mapsto> td3)\<rparr>
           in save_task tid td3 w3))"

section \<open>Python and path helpers\<close>

text \<open>
  Python floats are IEEE 754 doubles.  A finite float is modelled by the real number it
  stands for; the result of an operation is the exact result rounded to the nearest
  double, ties to the even significand, or an infinity when that is out of range.
  \<open>pow2 e\<close> is \<open>2\<close> to the integer power \<open>e\<close>, \<open>round_half_even\<close> rounds a real to the
  nearest integer, and \<open>round64\<close> rounds a real to a double: significands have 53 bits,
  the exponent of the leading bit is at least \<open>-1022\<close> (below that the spacing stays that
  of the subnormal numbers), and a rounded magnitude of \<open>2 ^ 1024\<close> or more is infinite.
\<close>

datatype pyfloat = Finite real | Infinity

definition pow2 :: "int \<Rightarrow> real" where
  "pow2 e = (if 0 \<le> e then 2 ^ nat e else 1 / 2 ^ nat (- e))"

definition round_half_even :: "real \<Rightarrow> int" where
  "round_half_even r =
     (let f = \<lfloor>r\<rfloor>; d = r - of_int f
      in if d < 1 / 2 then f
         else if 1 / 2 < d then f + 1
         else if even f then f else f + 1)"

definition round64 :: "real \<Rightarrow> pyfloat" where
  "round64 x =
     (if x = 0 then Finite 0
      else
        (let e = max \<lfloor>log 2 \<bar>x\<bar>\<rfloor> (- 1022) - 52;
             y = of_int (round_half_even (\<bar>x\<bar> / pow2 e)) * pow2 e
         in if 2 ^ 1024 \<le> y then Infinity else Finite (sgn x * y)))"

text \<open>
  Float division raises on a zero divisor.  \<^verbatim>\<open>int(x)\<close> truncates towards zero and raises
  on an infinity.
\<close>

definition py_truediv :: "real \<Rightarrow> real \<Rightarrow> exn + pyfloat" where
  "py_truediv x y = (if y = 0 then Inl ZeroDivisionError else Inr (round64 (x / y)))"

fun py_int :: "pyfloat \<Rightarrow> exn + int" where
  "py_int (Finite x) = Inr (if 0 \<le> x then \<lfloor>x\<rfloor> else \<lceil>x\<rceil>)"
| "py_int Infinity = Inl OverflowError"

text \<open>\<^verbatim>\<open>xs.sort(key=..., reverse=True)\<close>: descending and stable.\<close>

definition py_sort_desc :: "('a \<Rightarrow> 'k::linorder) \<Rightarrow> 'a list \<Rightarrow> 'a list" where
  "py_sort_desc key xs = rev (sort_key key (rev xs))"

text \<open>The slice \<^verbatim>\<open>xs[n:]\<close>, also for a negative \<open>n\<close>.\<close>

definition py_slice_from :: "int \<Rightarrow> 'a list \<Rightarrow> 'a list" where
  "py_slice_from n xs =
     (if 0 \<le> n then drop (nat n) xs else drop (length xs - nat (- n)) xs)"

definition startswith :: "string \<Rightarrow> string \<Rightarrow> bool" where
  "startswith s p = (take (length p) s = p)"

text \<open>\<^verbatim>\<open>s.split(c, 1)\<close>: at most one split, at the first occurrence of \<open>c\<close>.\<close>

definition py_split1 :: "char \<Rightarrow> string \<Rightarrow> string list" where
  "py_split1 c s =
     (case dropWhile (\<lambda>x. x \<noteq> c) s of
        [] \<Rightarrow> [s]
      | _ # rest \<Rightarrow> [takeWhile (\<lambda>x. x \<noteq> c) s, rest])"

text \<open>
  \<^verbatim>\<open>pathlib\<close>: the number of characters after the last dot of a file name; the name
  has a suffix when that dot is neither its first nor its last character.
\<close>

definition after_last_dot :: "string \<Rightarrow> nat" where
  "after_last_dot n = length (takeWhile (\<lambda>c. c \<noteq> CHR ''.'') (rev n))"

definition has_suffix :: "string \<Rightarrow> bool" where
  "has_suffix n =
     (CHR ''.'' \<in> set n \<and> 0 < after_last_dot n \<and> after_last_dot n + 1 < length n)"

definition suffix :: "string \<Rightarrow> string" where
  "suffix n = (if has_suffix n then drop (length n - 1 - after_last_dot n) n else [])"

definition stem :: "string \<Rightarrow> string" where
  "stem n = (if has_suffix n then take (length n - 1 - after_last_dot n) n else n)"

section \<open>Retention: \<^verbatim>\<open>cleanup_old_files\<close>\<close>

text \<open>
  The body of the loop over \<^verbatim>\<open>files_to_delete\<close>.  A failing \<^verbatim>\<open>unlink\<close> of the output
  file raises into the \<^verbatim>\<open>except\<close> of the loop body, which logs and goes on to the next
  file.  The task identifier is the second part of the stem split once at its first
  underscore.
\<close>

definition delete_old_file :: "entry \<Rightarrow> world \<Rightarrow> world" where
  "delete_old_file e w =
     (if unlink_raises w (name e) then w
      else
        (let w1 = w\<lparr>output_dir := filter (\<lambda>x. name x \<noteq> name e) (output_dir w)\<rparr>;
             filename = stem (name e)
         in if startswith filename ''merged_'' \<or> startswith filename ''replaced_audio_'' then
              (case py_split1 CHR ''_'' filename of
                 [_, tid] \<Rightarrow>
                   (if task_files w1 tid \<noteq> None
                    then w1\<lparr>task_files := (task_files w1)(tid := None),
                            tasks := (tasks w1)(tid := None)\<rparr>
                    else w1)
               | _ \<Rightarrow> w1)
            else w1))"

definition cleanup_old_files :: "world \<Rightarrow> world" where
  "cleanup_old_files w =
     (let output_files = py_sort_desc st_ctime (filter is_file (output_dir w))
      in if int (length output_files) > max_output_files w
         then foldl (\<lambda>w' e. delete_old_file e w') w
                (py_slice_from (max_output_files w) output_files)
         else w)"

section \<open>Clips and the media engine\<close>

text \<open>
  A clip as this program sees it: where it was loaded from, its duration in seconds (the
  real number that the float stands for), and the edits applied to it so far.
\<close>

datatype edit = Loop int | Subclip real real

record clip =
  path :: string
  duration :: real
  edits :: "edit list"

text \<open>
  The clip methods that the program calls belong to the media library (the 1.x line, from
  which \<^verbatim>\<open>moviepy.editor\<close> is imported), not to this repository.  They are modelled as
  that library defines them.  A video clip has \<^verbatim>\<open>loop\<close>: looped \<open>n\<close> times it lasts
  \<open>n\<close> times as long.  An audio clip has \<^verbatim>\<open>audio_loop\<close> but no method named
  \<^verbatim>\<open>loop\<close>, so the call \<^verbatim>\<open>audio_clip.loop(n)\<close> raises \<^verbatim>\<open>AttributeError\<close>.  Both have
  \<^verbatim>\<open>subclip\<close>: a negative start or end counts back from the end of the clip, a start
  beyond the end of the clip raises \<^verbatim>\<open>ValueError\<close>, and otherwise the result lasts from
  the start to the end.  (The text of that error also quotes the two numbers; the model
  leaves them out.  Where the library leaves the duration of a looped clip unset, for a
  product of zero, the model has duration \<open>0\<close>; a trim that starts at \<open>0\<close>, the only
  kind the program asks for, treats the two alike.)
\<close>

definition loop :: "int \<Rightarrow> clip \<Rightarrow> clip" where
  "loop n c = c\<lparr>duration := of_int n * duration c, edits := edits c @ [Loop n]\<rparr>"

definition audio_loop :: "int \<Rightarrow> clip \<Rightarrow> exn + clip" where
  "audio_loop n c = Inl (AttributeError ''AudioFileClip'' ''loop'')"

definition subclip :: "real \<Rightarrow> real \<Rightarrow> clip \<Rightarrow> exn + clip" where
  "subclip t_start t_end c =
     (let t_start = (if t_start < 0 then duration c + t_start else t_start)
      in if duration c < t_start
         then Inl (ValueError (''t_start should be smaller than the clip'' @ [CHR 0x27]
                          @ ''s duration.''))
         else
           (let t_end = (if t_end < 0 then duration c + t_end else t_end)
            in Inr (c\<lparr>duration := t_end - t_start,
                        edits := edits c @ [Subclip t_start t_end]\<rparr>)))"

text \<open>
  What the engine does in one run is a parameter: opening either input and encoding the
  final clip (the video clip with the audio clip attached) may each raise; a successful
  encode yields the size of the file written.
\<close>

record engine =
  VideoFileClip :: "string \<Rightarrow> exn + clip"
  AudioFileClip :: "string \<Rightarrow> exn + clip"
  write_videofile :: "clip \<times> clip \<Rightarrow> exn + nat"

definition open_clip :: "string \<Rightarrow> clip_var \<Rightarrow> world \<Rightarrow> world" where
  "open_clip tid v w = w\<lparr>open_clips := open_clips w @ [(tid, v)]\<rparr>"

definition close_clip :: "string \<Rightarrow> clip_var \<Rightarrow> world \<Rightarrow> world" where
  "close_clip tid v w = w\<lparr>open_clips := filter (\<lambda>x. x \<noteq> (tid, v)) (open_clips w)\<rparr>"

text \<open>A successful encode creates (or replaces) the output file.\<close>

definition write_output :: "string \<Rightarrow> nat \<Rightarrow> world \<Rightarrow> world" where
  "write_output n sz w =
     (let (t, w1) = now w
      in w1\<lparr>output_dir := filter (\<lambda>x. name x \<noteq> n) (output_dir w1)
              @ [\<lparr>name = n, st_ctime = t, is_file = True, st_size = sz\<rparr>]\<rparr>)"

text \<open>\<^verbatim>\<open>output_path.stat().st_size if output_path.exists() else 0\<close>\<close>

definition stat_size :: "string \<Rightarrow> world \<Rightarrow> nat" where
  "stat_size n w =
     (case find (\<lambda>x. name x = n) (output_dir w) of Some e \<Rightarrow> st_size e | None \<Rightarrow> 0)"

text \<open>The \<^verbatim>\<open>finally\<close> block: both temporary inputs are removed.\<close>

definition remove_temp_files :: "string \<Rightarrow> string \<Rightarrow> world \<Rightarrow> world" where
  "remove_temp_files video_path audio_path w =
     w\<lparr>temp_dir := filter (\<lambda>p. p \<noteq> video_path \<and> p \<noteq> audio_path) (temp_dir w)\<rparr>"

section \<open>Duration matching\<close>

text \<open>
  Lines 156 to 169 of \<^verbatim>\<open>process_merge_video_audio\<close>: the progress message is written
  first, then the loop count is computed, then the clip is looped and trimmed; each of
  these may raise.  The result is the exception raised, or the pair of clips that goes on
  to the encode.
\<close>

definition merge_match_durations ::
  "string \<Rightarrow> clip \<Rightarrow> clip \<Rightarrow> world \<Rightarrow> (exn + (clip \<times> clip)) \<times> world" where
  "merge_match_durations tid video_clip audio_clip w =
     (let video_duration = duration video_clip;
          audio_duration = duration audio_clip
      in if audio_duration > video_duration then
           (case update_task_status tid PROCESSING
                   [Message ''Audio is longer - looping video to match''] w of
              (Some e, w1) \<Rightarrow> (Inl e, w1)
            | (None, w1) \<Rightarrow>
           (case py_truediv audio_duration video_duration of
              Inl e \<Rightarrow> (Inl e, w1)
            | Inr q \<Rightarrow>
           (case py_int q of
              Inl e \<Rightarrow> (Inl e, w1)
            | Inr i \<Rightarrow>
           (let loops_needed = i + 1
            in case subclip 0 audio_duration (loop loops_needed video_clip) of
                 Inl e \<Rightarrow> (Inl e, w1)
               | Inr looped \<Rightarrow> (Inr (looped, audio_clip), w1)))))
         else if video_duration > audio_duration then
           (case update_task_status tid PROCESSING
                   [Message ''Video is longer - trimming to match audio''] w of
              (Some e, w1) \<Rightarrow> (Inl e, w1)
            | (None, w1) \<Rightarrow>
           (case subclip 0 audio_duration video_clip of
              Inl e \<Rightarrow> (Inl e, w1)
            | Inr trimmed \<Rightarrow> (Inr (trimmed, audio_clip), w1)))
         else
           (case update_task_status tid PROCESSING
                   [Message ''Video and audio durations match''] w of
              (Some e, w1) \<Rightarrow> (Inl e, w1)
            | (None, w1) \<Rightarrow> (Inr (video_clip, audio_clip), w1)))"

text \<open>Lines 238 to 251 of \<^verbatim>\<open>process_replace_audio\<close>.\<close>

definition replace_match_durations ::
  "string \<Rightarrow> clip \<Rightarrow> clip \<Rightarrow> world \<Rightarrow> (exn + (clip \<times> clip)) \<times> world" where
  "replace_match_durations tid video_clip audio_clip w =
     (let video_duration = duration video_clip;
          audio_duration = duration audio_clip
      in if audio_duration > video_duration then
           (case update_task_status tid PROCESSING
                   [Message ''Audio is longer - looping video to match''] w of
              (Some e, w1) \<Rightarrow> (Inl e, w1)
            | (None, w1) \<Rightarrow>
           (case py_truediv audio_duration video_duration of
              Inl e \<Rightarrow> (Inl e, w1)
            | Inr q \<Rightarrow>
           (case py_int q of
              Inl e \<Rightarrow> (Inl e, w1)
            | Inr i \<Rightarrow>
           (let loops_needed = i + 1
            in case subclip 0 audio_duration (loop loops_needed video_clip) of
                 Inl e \<Rightarrow> (Inl e, w1)
               | Inr looped \<Rightarrow> (Inr (looped, audio_clip), w1)))))
         else if video_duration > audio_duration then
           (case update_task_status tid PROCESSING
                   [Message ''Video is longer - looping audio to match''] w of
              (Some e, w1) \<Rightarrow> (Inl e, w1)
            | (None, w1) \<Rightarrow>
           (case py_truediv video_duration audio_duration of
              Inl e \<Rightarrow> (Inl e, w1)
            | Inr q \<Rightarrow>
           (case py_int q of
              Inl e \<Rightarrow> (Inl e, w1)
            | Inr i \<Rightarrow>
           (let loops_needed = i + 1
            in case audio_loop loops_needed audio_clip of
                 Inl e \<Rightarrow> (Inl e, w1)
               | Inr looped \<Rightarrow>
                   (case subclip 0 video_duration looped of
                      Inl e \<Rightarrow> (Inl e, w1)
                    | Inr trimmed \<Rightarrow> (Inr (video_clip, trimmed), w1))))))
         else
           (case update_task_status tid PROCESSING
                   [Message ''Video and audio durations match''] w of
              (Some e, w1) \<Rightarrow> (Inl e, w1)
            | (None, w1) \<Rightarrow> (Inr (video_clip, audio_clip), w1)))"

section \<open>Background processing\<close>

text \<open>
  The \<^verbatim>\<open>try\<close> block of \<^verbatim>\<open>process_merge_video_audio\<close>, up to the first exception: the
  result is the exception raised, if any, and the state reached.  Every status update
  writes the task file and so may raise as well.
\<close>

definition merge_try ::
  "engine \<Rightarrow> string \<Rightarrow> string \<Rightarrow> string \<Rightarrow> world \<Rightarrow> exn option \<times> world" where
  "merge_try eng tid video_path audio_path w =
     (case update_task_status tid PROCESSING [Message ''Loading video and audio files''] w of
        (Some e, w) \<Rightarrow> (Some e, w)
      | (None, w) \<Rightarrow>
     (case VideoFileClip eng video_path of
        Inl e \<Rightarrow> (Some e, w)
      | Inr video_clip \<Rightarrow>
     (let w = open_clip tid Video_clip w
      in case AudioFileClip eng audio_path of
           Inl e \<Rightarrow> (Some e, w)
         | Inr audio_clip \<Rightarrow>
     (let w = open_clip tid Audio_clip w
      in case merge_match_durations tid video_clip audio_clip w of
           (Inl e, w) \<Rightarrow> (Some e, w)
         | (Inr (video_clip, audio_clip), w) \<Rightarrow>
     (let final_clip = (video_clip, audio_clip);
          w = open_clip tid Final_clip w;
          output_name = ''merged_'' @ tid @ ''.mp4''
      in case update_task_status tid PROCESSING [Message ''Writing merged video file''] w of
           (Some e, w) \<Rightarrow> (Some e, w)
         | (None, w) \<Rightarrow>
     (case write_videofile eng final_clip of
        Inl e \<Rightarrow> (Some e, w)
      | Inr sz \<Rightarrow>
     (let w = write_output output_name sz w;
          w = close_clip tid Video_clip w;
          w = close_clip tid Audio_clip w;
          w = close_clip tid Final_clip w
      in case update_task_status tid SUCCESS
                [Message ''Video merge completed successfully'',
                 Output_file output_name,
                 File_size (stat_size output_name w)] w of
           (Some e, w) \<Rightarrow> (Some e, w)
         | (None, w) \<Rightarrow> (None, cleanup_old_files w))))))))"

text \<open>
  The whole function: \<^verbatim>\<open>try\<close>, \<^verbatim>\<open>except Exception\<close>, \<^verbatim>\<open>finally\<close>.  An exception raised
  by the status update of the handler itself leaves the function after the \<^verbatim>\<open>finally\<close>
  block; the framework that runs background calls only logs it, so the result is the state.
\<close>

definition process_merge_video_audio ::
  "engine \<Rightarrow> string \<Rightarrow> string \<Rightarrow> string \<Rightarrow> world \<Rightarrow> world" where
  "process_merge_video_audio eng tid video_path audio_path w =
     (case merge_try eng tid video_path audio_path w of
        (None, w1) \<Rightarrow> remove_temp_files video_path audio_path w1
      | (Some e, w1) \<Rightarrow>
          remove_temp_files video_path audio_path
            (snd (update_task_status tid FAILED
                    [Message (''Error processing merge: '' @ exn_str e), Error (exn_str e)] w1)))"

definition replace_try ::
  "engine \<Rightarrow> string \<Rightarrow> string \<Rightarrow> string \<Rightarrow> world \<Rightarrow> exn option \<times> world" where
  "replace_try eng tid video_path audio_path w =
     (case update_task_status tid PROCESSING [Message ''Loading video and audio files''] w of
        (Some e, w) \<Rightarrow> (Some e, w)
      | (None, w) \<Rightarrow>
     (case VideoFileClip eng video_path of
        Inl e \<Rightarrow> (Some e, w)
      | Inr video_clip \<Rightarrow>
     (let w = open_clip tid Video_clip w
      in case AudioFileClip eng audio_path of
           Inl e \<Rightarrow> (Some e, w)
         | Inr audio_clip \<Rightarrow>
     (let w = open_clip tid Audio_clip w
      in case replace_match_durations tid video_clip audio_clip w of
           (Inl e, w) \<Rightarrow> (Some e, w)
         | (Inr (video_clip, audio_clip), w) \<Rightarrow>
     (let final_clip = (video_clip, audio_clip);
          w = open_clip tid Final_clip w;
          output_name = ''replaced_audio_'' @ tid @ ''.mp4''
      in case update_task_status tid PROCESSING [Message ''Writing video with replaced audio''] w of
           (Some e, w) \<Rightarrow> (Some e, w)
         | (None, w) \<Rightarrow>
     (case write_videofile eng final_clip of
        Inl e \<Rightarrow> (Some e, w)
      | Inr sz \<Rightarrow>
     (let w = write_output output_name sz w;
          w = close_clip tid Video_clip w;
          w = close_clip tid Audio_clip w;
          w = close_clip tid Final_clip w
      in case update_task_status tid SUCCESS
                [Message ''Audio replacement completed successfully'',
                 Output_file output_name,
                 File_size (stat_size output_name w)] w of
           (Some e, w) \<Rightarrow> (Some e, w)
         | (None, w) \<Rightarrow> (None, cleanup_old_files w))))))))"

definition process_replace_audio ::
  "engine \<Rightarrow> string \<Rightarrow> string \<Rightarrow> string \<Rightarrow> world \<Rightarrow> world" where
  "process_replace_audio eng tid video_path audio_path w =
     (case replace_try eng tid video_path audio_path w of
        (None, w1) \<Rightarrow> remove_temp_files video_path audio_path w1
      | (Some e, w1) \<Rightarrow>
          remove_temp_files video_path audio_path
            (snd (update_task_status tid FAILED
                    [Message (''Error processing audio replacement: '' @ exn_str e), Error (exn_str e)] w1)))"

text \<open>
  A scheduled background call (\<^verbatim>\<open>background_tasks.add_task(f, task_id, video, audio)\<close>):
  the function and its three arguments.
\<close>

datatype background_fn = Process_merge_video_audio | Process_replace_audio

datatype job = Job background_fn string string string

fun run_job :: "engine \<Rightarrow> job \<Rightarrow> world \<Rightarrow> world" where
  "run_job eng (Job Process_merge_video_audio tid vp ap) w =
     process_merge_video_audio eng tid vp ap w"
| "run_job eng (Job Process_replace_audio tid vp ap) w =
     process_replace_audio eng tid vp ap w"

section \<open>Routes that create tasks\<close>

datatype HTTPException = HTTPException int string

record response =
  r_task_id :: string
  r_status :: TaskStatus
  r_message :: string
  r_created_at :: nat

definition video_extensions :: "string list" where
  "video_extensions = [''.mp4'', ''.avi'', ''.mov'', ''.mkv'', ''.wmv'', ''.flv'']"

definition audio_extensions :: "string list" where
  "audio_extensions = [''.mp3'', ''.wav'', ''.aac'', ''.m4a'', ''.ogg'', ''.flac'']"

text \<open>\<^verbatim>\<open>str.lower\<close> on the ASCII letters; other characters are left as they are.\<close>

definition lower_char :: "char \<Rightarrow> char" where
  "lower_char c =
     (let n = (of_char c :: nat) in if 65 \<le> n \<and> n \<le> 90 then char_of (n + 32) else c)"

definition lower :: "string \<Rightarrow> string" where
  "lower s = map lower_char s"

text \<open>
  \<^verbatim>\<open>Path(s).name\<close>: the last component of the path, where empty components and
  single dots do not count.
\<close>

fun split_on :: "char \<Rightarrow> string \<Rightarrow> string list" where
  "split_on c [] = [[]]"
| "split_on c (x # xs) =
     (if x = c then [] # split_on c xs
      else (case split_on c xs of [] \<Rightarrow> [[x]] | p # ps \<Rightarrow> (x # p) # ps))"

definition path_name :: "string \<Rightarrow> string" where
  "path_name s =
     (case filter (\<lambda>p. p \<noteq> [] \<and> p \<noteq> ''.'') (split_on CHR ''/'' s) of
        [] \<Rightarrow> []
      | p # ps \<Rightarrow> last (p # ps))"

text \<open>The text of a list of strings inside an f-string.\<close>

fun join :: "string \<Rightarrow> string list \<Rightarrow> string" where
  "join sep [] = []"
| "join sep [x] = x"
| "join sep (x # y # ys) = x @ sep @ join sep (y # ys)"

definition py_repr_list :: "string list \<Rightarrow> string" where
  "py_repr_list xs =
     ''['' @ join '', '' (map (\<lambda>x. [CHR 0x27] @ x @ [CHR 0x27]) xs) @ '']''"

text \<open>
  Lines 356 to 376 of the \<^verbatim>\<open>/merge\<close> route, once for each upload: a missing or
  unsupported extension is replaced by the default one.  The result is the extension and
  the file name as rewritten.
\<close>

definition coerce_filename ::
  "string list \<Rightarrow> string \<Rightarrow> string \<Rightarrow> string option \<Rightarrow> string \<times> string" where
  "coerce_filename extensions default_name default_ext fn =
     (case fn of
        None \<Rightarrow> (default_ext, default_name @ default_ext)
      | Some f \<Rightarrow>
          if f = [] then (default_ext, default_name @ default_ext)
          else if CHR ''.'' \<notin> set f then (default_ext, f @ default_ext)
          else
            (let ext = lower (suffix (path_name f))
             in if ext \<notin> set extensions
                then (default_ext, stem (path_name f) @ default_ext)
                else (ext, f)))"

text \<open>
  The \<^verbatim>\<open>try\<close> block shared in shape by the three routes: store both uploads under
  \<^verbatim>\<open>temp/\<close> (which may raise), create the task record in state \<^verbatim>\<open>pending\<close> (which may
  raise), schedule the background function and answer.  On an exception the temporary
  files are removed and the route answers 500.
\<close>

definition create_task ::
  "string \<Rightarrow> string \<Rightarrow> string \<Rightarrow> string \<Rightarrow> background_fn \<Rightarrow> string \<Rightarrow>
   string \<Rightarrow> string \<Rightarrow> string \<Rightarrow> string \<Rightarrow> exn option \<Rightarrow> world \<Rightarrow>
   (HTTPException + (response \<times> job)) \<times> world" where
  "create_task tid kind created_message answer bg video_name audio_name
     temp_video_path temp_audio_path error_prefix io w =
     (case io of
        Some e \<Rightarrow>
          (Inl (HTTPException 500 (error_prefix @ exn_str e)),
           remove_temp_files temp_video_path temp_audio_path w)
      | None \<Rightarrow>
          (let w = w\<lparr>temp_dir := temp_dir w @ [temp_video_path, temp_audio_path]\<rparr>;
               (t1, w) = now w;
               (t2, w) = now w;
               task_data =
                 \<lparr>task_id = tid, task_type = kind, status = PENDING,
                  created_at = t1, updated_at = t2,
                  video_filename = video_name, audio_filename = audio_name,
                  message = created_message,
                  output_file = None, file_size = None, error = None\<rparr>
           in case save_task tid task_data w of
                (Some e, w) \<Rightarrow>
                  (Inl (HTTPException 500 (error_prefix @ exn_str e)),
                   remove_temp_files temp_video_path temp_audio_path w)
              | (None, w) \<Rightarrow>
                  (Inr (\<lparr>r_task_id = tid, r_status = PENDING, r_message = answer,
                         r_created_at = created_at task_data\<rparr>,
                        Job bg tid temp_video_path temp_audio_path), w)))"

text \<open>
  \<^verbatim>\<open>POST /merge\<close>.  The arguments are the fresh identifier (\<^verbatim>\<open>uuid.uuid4()\<close>), the two
  upload file names (possibly absent) and whether storing the uploads raises.
\<close>

definition merge_video_audio ::
  "string \<Rightarrow> string option \<Rightarrow> string option \<Rightarrow> exn option \<Rightarrow> world \<Rightarrow>
   (HTTPException + (response \<times> job)) \<times> world" where
  "merge_video_audio tid video_file audio_file io w =
     (let (video_ext, video_name) =
            coerce_filename video_extensions ''video'' ''.mp4'' video_file;
          (audio_ext0, audio_name) =
            coerce_filename audio_extensions ''audio'' ''.mp3'' audio_file;
          audio_ext = lower (suffix (path_name audio_name))
      in if video_ext \<notin> set video_extensions then
           (Inl (HTTPException 400
                  (''Unsupported video format. Supported formats: ''
                   @ py_repr_list video_extensions)), w)
         else if audio_ext \<notin> set audio_extensions then
           (Inl (HTTPException 400
                  (''Unsupported audio format. Supported formats: ''
                   @ py_repr_list audio_extensions)), w)
         else
           create_task tid ''merge'' ''Task created, waiting to start processing''
             ''Task created successfully. Use /task/{task_id}/status to check progress.''
             Process_merge_video_audio video_name audio_name
             (''temp/video_'' @ tid @ video_ext) (''temp/audio_'' @ tid @ audio_ext)
             ''Error creating task: '' io w)"

text \<open>
  \<^verbatim>\<open>POST /merge-replace-audio\<close> and \<^verbatim>\<open>POST /loop-video-to-audio\<close>: an unsupported
  extension is refused.  A missing file name makes \<^verbatim>\<open>Path(None)\<close> raise outside the
  \<^verbatim>\<open>try\<close>, which the framework answers with 500.
\<close>

definition merge_replace_audio ::
  "string \<Rightarrow> string option \<Rightarrow> string option \<Rightarrow> exn option \<Rightarrow> world \<Rightarrow>
   (HTTPException + (response \<times> job)) \<times> world" where
  "merge_replace_audio tid video_file audio_file io w =
     (case (video_file, audio_file) of
        (Some vf, Some af) \<Rightarrow>
          (let video_ext = lower (suffix (path_name vf));
               audio_ext = lower (suffix (path_name af))
           in if video_ext \<notin> set video_extensions then
                (Inl (HTTPException 400
                       (''Unsupported video format. Supported formats: ''
                        @ py_repr_list video_extensions)), w)
              else if audio_ext \<notin> set audio_extensions then
                (Inl (HTTPException 400
                       (''Unsupported audio format. Supported formats: ''
                        @ py_repr_list audio_extensions)), w)
              else
                create_task tid ''replace_audio''
                  ''Task created, waiting to start processing''
                  ''Task created successfully. Use /task/{task_id}/status to check progress.''
                  Process_replace_audio vf af
                  (''temp/video_'' @ tid @ video_ext) (''temp/audio_'' @ tid @ audio_ext)
                  ''Error creating task: '' io w)
      | _ \<Rightarrow> (Inl (HTTPException 500 ''Internal Server Error''), w))"

definition loop_video_to_audio ::
  "string \<Rightarrow> string option \<Rightarrow> string option \<Rightarrow> exn option \<Rightarrow> world \<Rightarrow>
   (HTTPException + (response \<times> job)) \<times> world" where
  "loop_video_to_audio tid video_file audio_file io w =
     (case (video_file, audio_file) of
        (Some vf, Some af) \<Rightarrow>
          (let video_ext = lower (suffix (path_name vf));
               audio_ext = lower (suffix (path_name af))
           in if video_ext \<notin> set video_extensions then
                (Inl (HTTPException 400
                       (''Unsupported video format. Supported formats: ''
                        @ py_repr_list video_extensions)), w)
              else if audio_ext \<notin> set audio_extensions then
                (Inl (HTTPException 400
                       (''Unsupported audio format. Supported formats: ''
                        @ py_repr_list audio_extensions)), w)
              else
                create_task tid ''loop_video''
                  ''Task created, waiting to start video looping''
                  (''Video looping task created successfully. ''
                   @ ''The video will be looped to match audio duration.'')
                  Process_merge_video_audio vf af
                  (''temp/video_'' @ tid @ video_ext) (''temp/audio_'' @ tid @ audio_ext)
                  ''Error creating task: '' io w)
      | _ \<Rightarrow> (Inl (HTTPException 500 ''Internal Server Error''), w))"

section \<open>Concrete states and engines\<close>

text \<open>A state with no tasks and no files, and the default retention bound.\<close>

definition empty_world :: world where
  "empty_world =
     \<lparr>task_files = Map.empty, tasks = Map.empty, output_dir = [], temp_dir = [],
      max_output_files = 10, clock = 0, unlink_raises = (\<lambda>_. False),
      write_raises = (\<lambda>_. None), write_count = 0,
      open_clips = [], written = []\<rparr>"

text \<open>Two task records and a state for the retention rules: three artifacts, bound 1.\<close>

definition demo_task :: "string \<Rightarrow> string \<Rightarrow> TaskStatus \<Rightarrow> task_data" where
  "demo_task tid kind st =
     \<lparr>task_id = tid, task_type = kind, status = st, created_at = 0, updated_at = 0,
      video_filename = ''clip.mp4'', audio_filename = ''song.mp3'',
      message = ''Task created, waiting to start processing'',
      output_file = None, file_size = None, error = None\<rparr>"

definition retention_world :: world where
  "retention_world =
     \<lparr>task_files =
        [''1b9d6bcd-bbfd-4b2d-9b5d-ab8dfbbd4bed'' \<mapsto>
           demo_task ''1b9d6bcd-bbfd-4b2d-9b5d-ab8dfbbd4bed'' ''replace_audio'' SUCCESS,
         ''6ec0bd7f-11c0-43da-975e-2a8ad9ebae0b'' \<mapsto>
           demo_task ''6ec0bd7f-11c0-43da-975e-2a8ad9ebae0b'' ''merge'' SUCCESS],
      tasks =
        [''1b9d6bcd-bbfd-4b2d-9b5d-ab8dfbbd4bed'' \<mapsto>
           demo_task ''1b9d6bcd-bbfd-4b2d-9b5d-ab8dfbbd4bed'' ''replace_audio'' SUCCESS,
         ''6ec0bd7f-11c0-43da-975e-2a8ad9ebae0b'' \<mapsto>
           demo_task ''6ec0bd7f-11c0-43da-975e-2a8ad9ebae0b'' ''merge'' SUCCESS],
      output_dir =
        [\<lparr>name = ''replaced_audio_1b9d6bcd-bbfd-4b2d-9b5d-ab8dfbbd4bed.mp4'',
          st_ctime = 1, is_file = True, st_size = 1000\<rparr>,
         \<lparr>name = ''merged_6ec0bd7f-11c0-43da-975e-2a8ad9ebae0b.mp4'',
          st_ctime = 2, is_file = True, st_size = 1000\<rparr>,
         \<lparr>name = ''merged_3b241101-e2bb-4255-8caf-4136c566a962.mp4'',
          st_ctime = 3, is_file = True, st_size = 1000\<rparr>],
      temp_dir = [], max_output_files = 1, clock = 4, unlink_raises = (\<lambda>_. False),
      write_raises = (\<lambda>_. None), write_count = 0,
      open_clips = [], written = []\<rparr>"

text \<open>
  A task identifier, engines whose clips have given durations (one encodes, the other
  fails to encode), and the state right after \<^verbatim>\<open>POST /merge\<close> has created that task.
\<close>

definition demo_id :: string where
  "demo_id = ''3b241101-e2bb-4255-8caf-4136c566a962''"

definition steady_engine :: "real \<Rightarrow> real \<Rightarrow> engine" where
  "steady_engine v a =
     \<lparr>VideoFileClip = (\<lambda>p. Inr \<lparr>path = p, duration = v, edits = []\<rparr>),
      AudioFileClip = (\<lambda>p. Inr \<lparr>path = p, duration = a, edits = []\<rparr>),
      write_videofile = (\<lambda>_. Inr 1000)\<rparr>"

definition full_disk_engine :: "real \<Rightarrow> real \<Rightarrow> engine" where
  "full_disk_engine v a =
     \<lparr>VideoFileClip = (\<lambda>p. Inr \<lparr>path = p, duration = v, edits = []\<rparr>),
      AudioFileClip = (\<lambda>p. Inr \<lparr>path = p, duration = a, edits = []\<rparr>),
      write_videofile = (\<lambda>_. Inl (EngineError ''[Errno 28] No space left on device''))\<rparr>"

definition pending_task :: task_data where
  "pending_task =
     \<lparr>task_id = demo_id, task_type = ''merge'', status = PENDING,
      created_at = 0, updated_at = 1,
      video_filename = ''clip.mp4'', audio_filename = ''song.mp3'',
      message = ''Task created, waiting to start processing'',
      output_file = None, file_size = None, error = None\<rparr>"

definition pending_world :: world where
  "pending_world =
     \<lparr>task_files = [demo_id \<mapsto> pending_task], tasks = [demo_id \<mapsto> pending_task],
      output_dir = [],
      temp_dir = [''temp/video_'' @ demo_id @ ''.mp4'', ''temp/audio_'' @ demo_id @ ''.mp3''],
      max_output_files = 10, clock = 2, unlink_raises = (\<lambda>_. False),
      write_raises = (\<lambda>_. None), write_count = 1,
      open_clips = [], written = [(demo_id, pending_task)]\<rparr>"

text \<open>
  The same state on a disk that fails once: the write of a task file with number 4 (the
  one after the route's own and three more) is refused with an I/O error.
\<close>

definition io_error_world :: world where
  "io_error_world =
     pending_world\<lparr>write_raises :=
       (\<lambda>n. if n = 4 then Some (OSError ''[Errno 5] Input/output error'') else None)\<rparr>"

text \<open>The state right after \<^verbatim>\<open>POST /loop-video-to-audio\<close> has created that task.\<close>

definition looping_task :: task_data where
  "looping_task =
     \<lparr>task_id = demo_id, task_type = ''loop_video'', status = PENDING,
      created_at = 0, updated_at = 1,
      video_filename = ''clip.mp4'', audio_filename = ''song.mp3'',
      message = ''Task created, waiting to start video looping'',
      output_file = None, file_size = None, error = None\<rparr>"

definition looping_world :: world where
  "looping_world =
     \<lparr>task_files = [demo_id \<mapsto> looping_task], tasks = [demo_id \<mapsto> looping_task],
      output_dir = [],
      temp_dir = [''temp/video_'' @ demo_id @ ''.mp4'', ''temp/audio_'' @ demo_id @ ''.mp3''],
      max_output_files = 10, clock = 2, unlink_raises = (\<lambda>_. False),
      write_raises = (\<lambda>_. None), write_count = 1,
      open_clips = [], written = [(demo_id, looping_task)]\<rparr>"

section \<open>Observing a run\<close>

text \<open>
  A task is known in a state when \<^verbatim>\<open>get_task\<close> finds it.  The records written between
  two states are those the history has gained, and \<open>statuses\<close> lists their status
  values in order.
\<close>

definition known :: "string \<Rightarrow> world \<Rightarrow> bool" where
  "known tid w = (fst (get_task tid w) \<noteq> None)"

definition new_writes :: "world \<Rightarrow> world \<Rightarrow> (string \<times> task_data) list" where
  "new_writes w w' = drop (length (written w)) (written w')"

definition statuses :: "world \<Rightarrow> world \<Rightarrow> TaskStatus list" where
  "statuses w w' = map (\<lambda>x. status (snd x)) (new_writes w w')"

text \<open>
  The record that \<^verbatim>\<open>update_task_status\<close> leaves in the dictionary of a state in which
  the task is known: the status and the keyword arguments given, stamped with the clock.
\<close>

definition updated_record ::
  "string \<Rightarrow> TaskStatus \<Rightarrow> kwarg list \<Rightarrow> world \<Rightarrow> task_data option" where
  "updated_record tid st kwargs w =
     map_option (\<lambda>td. foldl apply_kwarg (td\<lparr>status := st, updated_at := clock w\<rparr>) kwargs)
       (fst (get_task tid w))"

text \<open>
  From \<open>w\<close> to \<open>w'\<close> the history has only grown, and every record it has gained
  satisfies \<open>P\<close>.
\<close>

definition grows :: "(task_data \<Rightarrow> bool) \<Rightarrow> world \<Rightarrow> world \<Rightarrow> bool" where
  "grows P w w' =
     (take (length (written w)) (written w') = written w
      \<and> list_all (\<lambda>x. P (snd x)) (new_writes w w'))"

section \<open>Floating-point division: properties\<close>

lemma round_half_even_bounds:
  "\<lfloor>r\<rfloor> \<le> round_half_even r \<and> round_half_even r \<le> \<lceil>r\<rceil>"
proof -
  have "r = of_int \<lfloor>r\<rfloor> \<or> \<lceil>r\<rceil> = \<lfloor>r\<rfloor> + 1"
    by (metis ceiling_altdef of_int_floor_cancel)
  then show ?thesis
    by (auto simp add: round_half_even_def Let_def)
qed

lemma pow2_pos [simp]: "0 < pow2 e"
  by (simp add: pow2_def)

lemma pow2_powr: "pow2 e = 2 powr of_int e"
  by (simp add: pow2_def powr_real_of_int inverse_eq_divide)

lemma floor_log2_eq:
  assumes "pow2 k \<le> x" and "x < pow2 (k + 1)"
  shows "\<lfloor>log 2 x\<rfloor> = k"
proof -
  have "0 < x"
    using assms(1) pow2_pos[of k] by linarith
  then show ?thesis
    using assms by (simp add: floor_log_eq_powr_iff pow2_powr)
qed

lemma round64_eval:
  assumes "pow2 k \<le> \<bar>x\<bar>" and "\<bar>x\<bar> < pow2 (k + 1)" and "- 1022 \<le> k"
  shows "round64 x =
     (let y = of_int (round_half_even (\<bar>x\<bar> / pow2 (k - 52))) * pow2 (k - 52)
      in if 2 ^ 1024 \<le> y then Infinity else Finite (sgn x * y))"
proof -
  have "0 < \<bar>x\<bar>"
    using assms(1) pow2_pos[of k] by linarith
  then have "x \<noteq> 0"
    by simp
  moreover have "\<lfloor>log 2 \<bar>x\<bar>\<rfloor> = k"
    using assms(1,2) by (rule floor_log2_eq)
  ultimately show ?thesis
    using assms(3) by (simp add: round64_def Let_def max_def)
qed

lemma round64_between_integers:
  assumes "1 \<le> x" and "x < 2 ^ 53"
  shows "\<exists>y. round64 x = Finite y \<and> of_int \<lfloor>x\<rfloor> \<le> y \<and> y \<le> of_int \<lceil>x\<rceil>"
proof -
  define k where "k = \<lfloor>log 2 x\<rfloor>"
  have x0: "0 < x" using assms(1) by simp
  have k0: "0 \<le> k"
    unfolding k_def using assms(1) by (simp add: zero_le_log_cancel_iff)
  have "log 2 x < 53"
    using x0 assms(2) by (simp add: log_less_iff powr_realpow[symmetric] del: powr_realpow)
  then have k52: "k \<le> 52"
    unfolding k_def by linarith
  define n where "n = nat (52 - k)"
  have p: "pow2 (k - 52) = 1 / 2 ^ n"
    using k52 by (auto simp add: pow2_def n_def)
  define m where "m = round_half_even (x * 2 ^ n)"
  have lo: "\<lfloor>x\<rfloor> * 2 ^ n \<le> m"
  proof -
    have "of_int (\<lfloor>x\<rfloor> * 2 ^ n) \<le> x * 2 ^ n"
      by (simp add: mult_right_mono)
    then have "\<lfloor>x\<rfloor> * 2 ^ n \<le> \<lfloor>x * 2 ^ n\<rfloor>"
      by (simp add: le_floor_iff)
    then show ?thesis
      using round_half_even_bounds[of "x * 2 ^ n"] by (simp add: m_def)
  qed
  have hi: "m \<le> \<lceil>x\<rceil> * 2 ^ n"
  proof -
    have "x * 2 ^ n \<le> of_int (\<lceil>x\<rceil> * 2 ^ n)"
      by (simp add: mult_right_mono)
    then have "\<lceil>x * 2 ^ n\<rceil> \<le> \<lceil>x\<rceil> * 2 ^ n"
      by (simp add: ceiling_le_iff)
    then show ?thesis
      using round_half_even_bounds[of "x * 2 ^ n"] by (simp add: m_def)
  qed
  define y where "y = of_int m / (2 ^ n :: real)"
  have ylo: "of_int \<lfloor>x\<rfloor> \<le> y"
  proof -
    have "of_int \<lfloor>x\<rfloor> * (2 ^ n :: real) \<le> of_int m"
      using lo by (metis of_int_le_iff of_int_mult of_int_numeral of_int_power)
    then show ?thesis
      by (simp add: y_def pos_le_divide_eq)
  qed
  have yhi: "y \<le> of_int \<lceil>x\<rceil>"
  proof -
    have "of_int m \<le> of_int \<lceil>x\<rceil> * (2 ^ n :: real)"
      using hi by (metis of_int_le_iff of_int_mult of_int_numeral of_int_power)
    then show ?thesis
      by (simp add: y_def pos_divide_le_eq)
  qed
  have "\<lceil>x\<rceil> \<le> 2 ^ 53"
    using assms(2) by (simp add: ceiling_le_iff)
  then have "of_int \<lceil>x\<rceil> \<le> (2 ^ 53 :: real)"
    by (metis of_int_le_iff of_int_numeral of_int_power)
  moreover have "(2 ^ 53 :: real) < 2 ^ 1024"
    by (rule power_strict_increasing) simp_all
  ultimately have fin: "y < 2 ^ 1024"
    using yhi by linarith
  have "round64 x = Finite y"
    using x0 k0 k52 fin
    by (simp add: round64_def Let_def k_def[symmetric] max_def p m_def[symmetric] y_def)
  with ylo yhi show ?thesis by blast
qed

lemma truediv_5_5_by_1_1: "py_truediv (11 / 2) (2476979795053773 / 2251799813685248) = Inr (Finite 5)"
proof -
  have "round64 ((11 / 2) / (2476979795053773 / 2251799813685248)) = Finite 5"
    by (subst round64_eval[where k = 2])
       (simp_all add: pow2_def round_half_even_def Let_def)
  then show ?thesis
    by (simp add: py_truediv_def)
qed

lemma truediv_near_10_by_10: "py_truediv (10000001 / 1000000) 10 = Inr (Finite (4503600077730459 / 4503599627370496))"
proof -
  have "round64 ((10000001 / 1000000) / 10) = Finite (4503600077730459 / 4503599627370496)"
    by (subst round64_eval[where k = 0])
       (simp_all add: pow2_def round_half_even_def Let_def)
  then show ?thesis
    by (simp add: py_truediv_def)
qed

lemma truediv_25_by_10: "py_truediv 25 10 = Inr (Finite (5 / 2))"
proof -
  have "round64 (25 / 10) = Finite (5 / 2)"
    by (subst round64_eval[where k = 1])
       (simp_all add: pow2_def round_half_even_def Let_def)
  then show ?thesis
    by (simp add: py_truediv_def)
qed

lemma truediv_30_by_10: "py_truediv 30 10 = Inr (Finite 3)"
proof -
  have "round64 (30 / 10) = Finite 3"
    by (subst round64_eval[where k = 1])
       (simp_all add: pow2_def round_half_even_def Let_def)
  then show ?thesis
    by (simp add: py_truediv_def)
qed

lemma truediv_overflows: "py_truediv (2 ^ 600) (1 / 2 ^ 600) = Inr Infinity"
proof -
  have "round64 (2 ^ 600 / (1 / 2 ^ 600)) = Infinity"
    by (subst round64_eval[where k = 1200])
       (simp_all add: pow2_def round_half_even_def Let_def)
  then show ?thesis
    by (simp add: py_truediv_def)
qed

lemma float_of_1_1: "round64 (11 / 10) = Finite (2476979795053773 / 2251799813685248)"
  by (subst round64_eval[where k = 0])
     (simp_all add: pow2_def round_half_even_def Let_def)

section \<open>Task store: properties\<close>

lemma known_iff: "known tid w = (tasks w tid \<noteq> None \<or> task_files w tid \<noteq> None)"
  by (auto simp add: known_def get_task_def split: option.splits)

lemma fst_get_task:
  "fst (get_task tid w) = (case tasks w tid of Some td \<Rightarrow> Some td | None \<Rightarrow> task_files w tid)"
  by (simp add: get_task_def split: option.splits)

lemma status_foldl_kwarg [simp]: "status (foldl apply_kwarg td kws) = status td"
proof (induction kws arbitrary: td)
  case Nil
  show ?case by simp
next
  case (Cons k ks)
  show ?case by (cases k) (simp_all add: Cons.IH)
qed

lemma updated_at_foldl_kwarg [simp]: "updated_at (foldl apply_kwarg td kws) = updated_at td"
proof (induction kws arbitrary: td)
  case Nil
  show ?case by simp
next
  case (Cons k ks)
  show ?case by (cases k) (simp_all add: Cons.IH)
qed

lemma updated_record_known: "(updated_record tid st kws w \<noteq> None) = known tid w"
  by (simp add: updated_record_def known_def)

lemma updated_record_fields:
  "updated_record tid st kws w = Some td \<Longrightarrow> status td = st \<and> updated_at td = clock w"
  by (auto simp add: updated_record_def)

lemma fst_save_task [simp]: "fst (save_task tid td w) = write_raises w (write_count w)"
  by (simp add: save_task_def Let_def split: option.splits)

lemma fst_update [simp]:
  "fst (update_task_status tid st kws w) =
     (if known tid w then write_raises w (write_count w) else None)"
  by (auto simp add: update_task_status_def known_def get_task_def save_task_def now_def Let_def
        split: option.splits)

lemma update_frame [simp]:
  "output_dir (snd (update_task_status tid st kws w)) = output_dir w"
  "temp_dir (snd (update_task_status tid st kws w)) = temp_dir w"
  "max_output_files (snd (update_task_status tid st kws w)) = max_output_files w"
  "unlink_raises (snd (update_task_status tid st kws w)) = unlink_raises w"
  "write_raises (snd (update_task_status tid st kws w)) = write_raises w"
  "open_clips (snd (update_task_status tid st kws w)) = open_clips w"
  by (auto simp add: update_task_status_def get_task_def save_task_def now_def Let_def
        split: option.splits)

lemma update_counters [simp]:
  "clock (snd (update_task_status tid st kws w)) =
     (if known tid w then Suc (clock w) else clock w)"
  "write_count (snd (update_task_status tid st kws w)) =
     (if known tid w then Suc (write_count w) else write_count w)"
  by (auto simp add: update_task_status_def known_def get_task_def save_task_def now_def Let_def
        split: option.splits)

lemma update_get_task_same [simp]:
  "fst (get_task tid (snd (update_task_status tid st kws w))) = updated_record tid st kws w"
  by (auto simp add: update_task_status_def updated_record_def get_task_def save_task_def
        now_def Let_def split: option.splits)

lemma update_get_task_other:
  "t \<noteq> tid \<Longrightarrow>
     fst (get_task t (snd (update_task_status tid st kws w))) = fst (get_task t w)"
  by (auto simp add: update_task_status_def get_task_def save_task_def now_def Let_def
        split: option.splits)

lemma update_known [simp]: "known t (snd (update_task_status tid st kws w)) = known t w"
  by (cases "t = tid")
     (simp_all add: known_def update_get_task_other updated_record_def)

lemma update_written:
  "written (snd (update_task_status tid st kws w)) =
     (case updated_record tid st kws w of
        None \<Rightarrow> written w
      | Some td \<Rightarrow>
          if write_raises w (write_count w) = None then written w @ [(tid, td)]
          else written w)"
  by (auto simp add: update_task_status_def updated_record_def get_task_def save_task_def
        now_def Let_def split: option.splits)

lemma pending_fields [simp]:
  "tasks pending_world demo_id = Some pending_task"
  "output_dir pending_world = []"
  "max_output_files pending_world = 10"
  "clock pending_world = 2"
  "write_raises pending_world = (\<lambda>_. None)"
  "write_count pending_world = 1"
  "open_clips pending_world = []"
  "written pending_world = [(demo_id, pending_task)]"
  by (simp_all add: pending_world_def)

lemma known_pending [simp]: "known demo_id pending_world"
  by (simp add: known_iff)

lemma unknown_empty [simp]: "\<not> known t empty_world"
  by (simp add: known_iff empty_world_def)

text \<open>
  Claim C8, as the spec states it, makes creation fail on an identifier that already has
  a record.  \<^verbatim>\<open>save_task\<close> has no such check, and it is also the function through which
  every update is written: saving a second record under the same identifier raises
  nothing and replaces the first.
\<close>

theorem save_task_conflict_counterexample:
  "fst (save_task ''6ec0bd7f-11c0-43da-975e-2a8ad9ebae0b''
          (demo_task ''6ec0bd7f-11c0-43da-975e-2a8ad9ebae0b'' ''merge'' SUCCESS)
          empty_world) = None
   \<and> fst (save_task ''6ec0bd7f-11c0-43da-975e-2a8ad9ebae0b''
          (demo_task ''6ec0bd7f-11c0-43da-975e-2a8ad9ebae0b'' ''loop_video'' PENDING)
          (snd (save_task ''6ec0bd7f-11c0-43da-975e-2a8ad9ebae0b''
                  (demo_task ''6ec0bd7f-11c0-43da-975e-2a8ad9ebae0b'' ''merge'' SUCCESS)
                  empty_world))) = None
   \<and> fst (get_task ''6ec0bd7f-11c0-43da-975e-2a8ad9ebae0b''
         (snd (save_task ''6ec0bd7f-11c0-43da-975e-2a8ad9ebae0b''
            (demo_task ''6ec0bd7f-11c0-43da-975e-2a8ad9ebae0b'' ''loop_video'' PENDING)
            (snd (save_task ''6ec0bd7f-11c0-43da-975e-2a8ad9ebae0b''
               (demo_task ''6ec0bd7f-11c0-43da-975e-2a8ad9ebae0b'' ''merge'' SUCCESS)
               empty_world)))))
     = Some (demo_task ''6ec0bd7f-11c0-43da-975e-2a8ad9ebae0b'' ''loop_video'' PENDING)
   \<and> demo_task ''6ec0bd7f-11c0-43da-975e-2a8ad9ebae0b'' ''loop_video'' PENDING
       \<noteq> demo_task ''6ec0bd7f-11c0-43da-975e-2a8ad9ebae0b'' ''merge'' SUCCESS"
  by (simp add: get_task_def save_task_def demo_task_def empty_world_def)

text \<open>
  Claim C8, amended.  For every identifier and every state, whether \<^verbatim>\<open>save_task\<close>
  raises depends only on whether the task file can be written, not on the records that
  exist.  When the write is not refused, the record given is stored in the task file and
  in the dictionary, whether or not a record with that identifier existed; reading the
  identifier back yields that record.
\<close>

theorem save_task_overwrites:
  "fst (save_task tid td w) = write_raises w (write_count w)
   \<and> (write_raises w (write_count w) = None \<longrightarrow>
        task_files (snd (save_task tid td w)) tid = Some td
      \<and> tasks (snd (save_task tid td w)) tid = Some td
      \<and> fst (get_task tid (snd (save_task tid td w))) = Some td
      \<and> written (snd (save_task tid td w)) = written w @ [(tid, td)])"
  by (auto simp add: get_task_def save_task_def Let_def split: option.splits)

text \<open>Saving another record under the identifier of the pending task.\<close>

theorem save_task_overwrites_witness:
  "write_raises pending_world (write_count pending_world) = None
   \<and> tasks pending_world demo_id = Some pending_task
   \<and> fst (save_task demo_id looping_task pending_world) = None
   \<and> task_files (snd (save_task demo_id looping_task pending_world)) demo_id = Some looping_task
   \<and> tasks (snd (save_task demo_id looping_task pending_world)) demo_id = Some looping_task
   \<and> fst (get_task demo_id (snd (save_task demo_id looping_task pending_world)))
       = Some looping_task
   \<and> written (snd (save_task demo_id looping_task pending_world))
       = [(demo_id, pending_task), (demo_id, looping_task)]"
  using save_task_overwrites[of demo_id looping_task pending_world]
  by simp

section \<open>Duration matching: properties\<close>

lemma fst_merge_match:
  "fst (merge_match_durations tid vc ac w) =
     (if duration ac > duration vc then
        (case fst (update_task_status tid PROCESSING
                     [Message ''Audio is longer - looping video to match''] w) of
           Some e \<Rightarrow> Inl e
         | None \<Rightarrow>
        (case py_truediv (duration ac) (duration vc) of
           Inl e \<Rightarrow> Inl e
         | Inr q \<Rightarrow>
        (case py_int q of
           Inl e \<Rightarrow> Inl e
         | Inr i \<Rightarrow>
        (case subclip 0 (duration ac) (loop (i + 1) vc) of
           Inl e \<Rightarrow> Inl e
         | Inr looped \<Rightarrow> Inr (looped, ac)))))
      else if duration vc > duration ac then
        (case fst (update_task_status tid PROCESSING
                     [Message ''Video is longer - trimming to match audio''] w) of
           Some e \<Rightarrow> Inl e
         | None \<Rightarrow>
        (case subclip 0 (duration ac) vc of
           Inl e \<Rightarrow> Inl e
         | Inr trimmed \<Rightarrow> Inr (trimmed, ac)))
      else
        (case fst (update_task_status tid PROCESSING
                     [Message ''Video and audio durations match''] w) of
           Some e \<Rightarrow> Inl e
         | None \<Rightarrow> Inr (vc, ac)))"
proof -
  consider (audio) "duration ac > duration vc"
    | (video) "\<not> duration ac > duration vc" "duration vc > duration ac"
    | (equal) "\<not> duration ac > duration vc" "\<not> duration vc > duration ac"
    by blast
  then show ?thesis
  proof cases
    case audio
    then show ?thesis
      unfolding merge_match_durations_def Let_def case_prod_beta
      by (simp add: option.case_distrib[of fst] sum.case_distrib[of fst] del: fst_update cong: option.case_cong sum.case_cong)
  next
    case video
    then show ?thesis
      unfolding merge_match_durations_def Let_def case_prod_beta
      by (simp add: option.case_distrib[of fst] sum.case_distrib[of fst] del: fst_update cong: option.case_cong sum.case_cong)
  next
    case equal
    then show ?thesis
      unfolding merge_match_durations_def Let_def case_prod_beta
      by (simp add: option.case_distrib[of fst] sum.case_distrib[of fst] del: fst_update cong: option.case_cong sum.case_cong)
  qed
qed

lemma fst_replace_match:
  "fst (replace_match_durations tid vc ac w) =
     (if duration ac > duration vc then
        (case fst (update_task_status tid PROCESSING
                     [Message ''Audio is longer - looping video to match''] w) of
           Some e \<Rightarrow> Inl e
         | None \<Rightarrow>
        (case py_truediv (duration ac) (duration vc) of
           Inl e \<Rightarrow> Inl e
         | Inr q \<Rightarrow>
        (case py_int q of
           Inl e \<Rightarrow> Inl e
         | Inr i \<Rightarrow>
        (case subclip 0 (duration ac) (loop (i + 1) vc) of
           Inl e \<Rightarrow> Inl e
         | Inr looped \<Rightarrow> Inr (looped, ac)))))
      else if duration vc > duration ac then
        (case fst (update_task_status tid PROCESSING
                     [Message ''Video is longer - looping audio to match''] w) of
           Some e \<Rightarrow> Inl e
         | None \<Rightarrow>
        (case py_truediv (duration vc) (duration ac) of
           Inl e \<Rightarrow> Inl e
         | Inr q \<Rightarrow>
        (case py_int q of
           Inl e \<Rightarrow> Inl e
         | Inr i \<Rightarrow> Inl (AttributeError ''AudioFileClip'' ''loop''))))
      else
        (case fst (update_task_status tid PROCESSING
                     [Message ''Video and audio durations match''] w) of
           Some e \<Rightarrow> Inl e
         | None \<Rightarrow> Inr (vc, ac)))"
proof -
  consider (audio) "duration ac > duration vc"
    | (video) "\<not> duration ac > duration vc" "duration vc > duration ac"
    | (equal) "\<not> duration ac > duration vc" "\<not> duration vc > duration ac"
    by blast
  then show ?thesis
  proof cases
    case audio
    then show ?thesis
      unfolding replace_match_durations_def Let_def case_prod_beta
      by (simp add: option.case_distrib[of fst] sum.case_distrib[of fst] del: fst_update cong: option.case_cong sum.case_cong)
  next
    case video
    then show ?thesis
      unfolding replace_match_durations_def Let_def case_prod_beta audio_loop_def
      by (simp add: option.case_distrib[of fst] sum.case_distrib[of fst] del: fst_update cong: option.case_cong sum.case_cong)
  next
    case equal
    then show ?thesis
      unfolding replace_match_durations_def Let_def case_prod_beta
      by (simp add: option.case_distrib[of fst] sum.case_distrib[of fst] del: fst_update cong: option.case_cong sum.case_cong)
  qed
qed

lemma snd_merge_match [simp]:
  "snd (merge_match_durations tid vc ac w) =
     snd (update_task_status tid PROCESSING
            [Message (if duration ac > duration vc
                      then ''Audio is longer - looping video to match''
                      else if duration vc > duration ac
                      then ''Video is longer - trimming to match audio''
                      else ''Video and audio durations match'')] w)"
  unfolding merge_match_durations_def Let_def case_prod_beta
  by (simp add: option.case_distrib[of snd] sum.case_distrib[of snd]
        split: option.split sum.split)

lemma snd_replace_match [simp]:
  "snd (replace_match_durations tid vc ac w) =
     snd (update_task_status tid PROCESSING
            [Message (if duration ac > duration vc
                      then ''Audio is longer - looping video to match''
                      else if duration vc > duration ac
                      then ''Video is longer - looping audio to match''
                      else ''Video and audio durations match'')] w)"
  unfolding replace_match_durations_def Let_def case_prod_beta
  by (simp add: option.case_distrib[of snd] sum.case_distrib[of snd]
        split: option.split sum.split)

lemma subclip_from_0:
  "0 \<le> t_end \<Longrightarrow> 0 \<le> duration c \<Longrightarrow>
     subclip 0 t_end c = Inr (c\<lparr>duration := t_end, edits := edits c @ [Subclip 0 t_end]\<rparr>)"
  by (simp add: subclip_def Let_def)

lemma float_loop_count:
  fixes a v :: real
  assumes "0 < v" and "v < a" and "a / v < 2 ^ 53"
  shows "\<exists>q i. py_truediv a v = Inr q \<and> py_int q = Inr i
           \<and> \<lfloor>a / v\<rfloor> \<le> i \<and> i \<le> \<lfloor>a / v\<rfloor> + 1 \<and> a < of_int (i + 1) * v"
proof -
  have x1: "1 \<le> a / v"
    using assms(1,2) by simp
  from round64_between_integers[OF x1 assms(3)] obtain y where
    y: "round64 (a / v) = Finite y" "of_int \<lfloor>a / v\<rfloor> \<le> y" "y \<le> of_int \<lceil>a / v\<rceil>"
    by blast
  have y0: "0 \<le> y"
    using y(2) x1 by (smt (verit) of_int_0_le_iff zero_le_floor)
  have lo: "\<lfloor>a / v\<rfloor> \<le> \<lfloor>y\<rfloor>"
    using y(2) by (simp add: le_floor_iff)
  have "\<lfloor>y\<rfloor> \<le> \<lceil>a / v\<rceil>"
    using y(3) by (simp add: floor_le_iff)
  then have hi: "\<lfloor>y\<rfloor> \<le> \<lfloor>a / v\<rfloor> + 1"
    by linarith
  have "a / v < of_int (\<lfloor>y\<rfloor> + 1)"
    using lo by linarith
  with assms(1) have cover: "a < of_int (\<lfloor>y\<rfloor> + 1) * v"
    by (simp only: pos_divide_less_eq)
  have "py_truediv a v = Inr (Finite y)"
    using assms(1) y(1) by (simp add: py_truediv_def)
  moreover have "py_int (Finite y) = Inr \<lfloor>y\<rfloor>"
    using y0 by simp
  ultimately show ?thesis
    using lo hi cover by blast
qed

text \<open>
  Claim C1, as the spec states it, has the video looped \<open>floor(a / v) + 1\<close> times for all
  positive durations.  The code divides two floats, so the quotient is rounded to a double
  before \<^verbatim>\<open>int\<close> truncates it.  With a video of 1.1 s (the double nearest to \<open>11 / 10\<close>)
  and 5.5 s of audio, the exact quotient lies just below 5 and \<open>floor(a / v) + 1\<close> is 5;
  the float quotient is 5.0 and the video is looped 6 times.  With a video of \<open>2\<close> to the
  \<open>-600\<close> seconds and audio of \<open>2\<close> to the \<open>600\<close> seconds the quotient is too large for
  a double, \<^verbatim>\<open>int\<close> raises \<^verbatim>\<open>OverflowError\<close>, and no clips result.
\<close>

theorem float_quotient_counterexample:
  "round64 (11 / 10) = Finite (2476979795053773 / 2251799813685248)
   \<and> \<lfloor>(11 / 2) / (2476979795053773 / 2251799813685248 :: real)\<rfloor> + 1 = 5
   \<and> fst (merge_match_durations demo_id
        \<lparr>path = ''v.mp4'', duration = 2476979795053773 / 2251799813685248, edits = []\<rparr>
        \<lparr>path = ''a.mp3'', duration = 11 / 2, edits = []\<rparr> pending_world) =
       Inr (\<lparr>path = ''v.mp4'', duration = 11 / 2, edits = [Loop 6, Subclip 0 (11 / 2)]\<rparr>,
            \<lparr>path = ''a.mp3'', duration = 11 / 2, edits = []\<rparr>)
   \<and> fst (merge_match_durations demo_id
        \<lparr>path = ''v.mp4'', duration = 1 / 2 ^ 600, edits = []\<rparr>
        \<lparr>path = ''a.mp3'', duration = 2 ^ 600, edits = []\<rparr> pending_world) =
       Inl OverflowError"
proof -
  have a: "\<lfloor>(11 / 2) / (2476979795053773 / 2251799813685248 :: real)\<rfloor> + 1 = 5"
    by simp
  have b: "fst (merge_match_durations demo_id
        \<lparr>path = ''v.mp4'', duration = 2476979795053773 / 2251799813685248, edits = []\<rparr>
        \<lparr>path = ''a.mp3'', duration = 11 / 2, edits = []\<rparr> pending_world) =
       Inr (\<lparr>path = ''v.mp4'', duration = 11 / 2, edits = [Loop 6, Subclip 0 (11 / 2)]\<rparr>,
            \<lparr>path = ''a.mp3'', duration = 11 / 2, edits = []\<rparr>)"
    by (simp add: fst_merge_match truediv_5_5_by_1_1 subclip_from_0 loop_def)
  have c: "fst (merge_match_durations demo_id
        \<lparr>path = ''v.mp4'', duration = 1 / 2 ^ 600, edits = []\<rparr>
        \<lparr>path = ''a.mp3'', duration = 2 ^ 600, edits = []\<rparr> pending_world) =
       Inl OverflowError"
    using truediv_overflows by (simp add: fst_merge_match)
  from float_of_1_1 a b c show ?thesis
    by (intro conjI)
qed

text \<open>
  Claim C1, amended.  For positive durations, and when writing the progress message does
  not raise, the matching step of \<^verbatim>\<open>process_merge_video_audio\<close> (the function behind
  both the merge and the loop-exact policy) behaves as follows.  When the audio is longer
  and \<open>a / v\<close> is below \<open>2\<close> to the \<open>53\<close>, the video is looped \<open>int(q) + 1\<close> times,
  where \<open>q\<close> is the float quotient, and then trimmed to \<open>[0, a]\<close>; that count is
  \<open>\<lfloor>a / v\<rfloor> + 1\<close> or one more, and that many loops last longer than the audio.  When
  the video is longer, it is trimmed to \<open>[0, a]\<close>.  In every such case the audio clip is
  passed on as it was and the video clip passed on has the duration of the audio.
\<close>

theorem merge_durations_reconciled:
  assumes "0 < duration video_clip" and "0 < duration audio_clip"
    and "write_raises w (write_count w) = None"
  shows "(duration audio_clip > duration video_clip
            \<and> duration audio_clip / duration video_clip < 2 ^ 53 \<longrightarrow>
            (\<exists>q i. py_truediv (duration audio_clip) (duration video_clip) = Inr q
               \<and> py_int q = Inr i
               \<and> fst (merge_match_durations tid video_clip audio_clip w) =
                   Inr (video_clip\<lparr>duration := duration audio_clip,
                          edits := edits video_clip @
                            [Loop (i + 1), Subclip 0 (duration audio_clip)]\<rparr>, audio_clip)
               \<and> \<lfloor>duration audio_clip / duration video_clip\<rfloor> + 1 \<le> i + 1
               \<and> i + 1 \<le> \<lfloor>duration audio_clip / duration video_clip\<rfloor> + 2
               \<and> duration audio_clip < of_int (i + 1) * duration video_clip))
       \<and> (duration video_clip > duration audio_clip \<longrightarrow>
            fst (merge_match_durations tid video_clip audio_clip w) =
              Inr (video_clip\<lparr>duration := duration audio_clip,
                     edits := edits video_clip @ [Subclip 0 (duration audio_clip)]\<rparr>,
                   audio_clip))
       \<and> (duration audio_clip / duration video_clip < 2 ^ 53 \<longrightarrow>
            (\<exists>vc. fst (merge_match_durations tid video_clip audio_clip w) = Inr (vc, audio_clip)
               \<and> duration vc = duration audio_clip))"
proof -
  have longer_audio: "\<exists>q i. py_truediv (duration audio_clip) (duration video_clip) = Inr q
               \<and> py_int q = Inr i
               \<and> fst (merge_match_durations tid video_clip audio_clip w) =
                   Inr (video_clip\<lparr>duration := duration audio_clip,
                          edits := edits video_clip @
                            [Loop (i + 1), Subclip 0 (duration audio_clip)]\<rparr>, audio_clip)
               \<and> \<lfloor>duration audio_clip / duration video_clip\<rfloor> + 1 \<le> i + 1
               \<and> i + 1 \<le> \<lfloor>duration audio_clip / duration video_clip\<rfloor> + 2
               \<and> duration audio_clip < of_int (i + 1) * duration video_clip"
    if gt: "duration audio_clip > duration video_clip"
      and small: "duration audio_clip / duration video_clip < 2 ^ 53"
  proof -
    from float_loop_count[OF assms(1) gt small] obtain q i where
      qi: "py_truediv (duration audio_clip) (duration video_clip) = Inr q" "py_int q = Inr i"
        "\<lfloor>duration audio_clip / duration video_clip\<rfloor> \<le> i"
        "i \<le> \<lfloor>duration audio_clip / duration video_clip\<rfloor> + 1"
        "duration audio_clip < of_int (i + 1) * duration video_clip"
      by blast
    have "0 < of_int (i + 1) * duration video_clip"
      using qi(5) assms(2) by linarith
    then have "fst (merge_match_durations tid video_clip audio_clip w) =
        Inr (video_clip\<lparr>duration := duration audio_clip,
               edits := edits video_clip @
                 [Loop (i + 1), Subclip 0 (duration audio_clip)]\<rparr>, audio_clip)"
      using gt qi(1,2) assms(2,3) by (simp add: fst_merge_match subclip_from_0 loop_def)
    with qi show ?thesis
      by (intro exI[of _ q] exI[of _ i]) simp
  qed
  have longer_video: "fst (merge_match_durations tid video_clip audio_clip w) =
              Inr (video_clip\<lparr>duration := duration audio_clip,
                     edits := edits video_clip @ [Subclip 0 (duration audio_clip)]\<rparr>,
                   audio_clip)"
    if "duration video_clip > duration audio_clip"
    using that assms by (simp add: fst_merge_match subclip_from_0)
  have any: "\<exists>vc. fst (merge_match_durations tid video_clip audio_clip w) = Inr (vc, audio_clip)
               \<and> duration vc = duration audio_clip"
    if small: "duration audio_clip / duration video_clip < 2 ^ 53"
  proof -
    consider "duration audio_clip > duration video_clip"
      | "duration video_clip > duration audio_clip"
      | "duration video_clip = duration audio_clip"
      by linarith
    then show ?thesis
    proof cases
      case 1
      from longer_audio[OF 1 small] show ?thesis by auto
    next
      case 2
      from longer_video[OF 2] show ?thesis by simp
    next
      case 3
      then show ?thesis
        using assms(3) by (simp add: fst_merge_match)
    qed
  qed
  show ?thesis
    by (intro conjI impI; (elim conjE)?; (rule longer_audio longer_video any; assumption))
qed

text \<open>A 10 s video with 25 s of audio (three loops), and a 30 s video with 10 s of audio.\<close>

theorem merge_durations_reconciled_witness:
  "(0::real) < duration \<lparr>path = ''v.mp4'', duration = 10, edits = []\<rparr>
   \<and> (0::real) < duration \<lparr>path = ''a.mp3'', duration = 25, edits = []\<rparr>
   \<and> write_raises pending_world (write_count pending_world) = None
   \<and> (25::real) / 10 < 2 ^ 53
   \<and> fst (merge_match_durations demo_id \<lparr>path = ''v.mp4'', duration = 10, edits = []\<rparr>
          \<lparr>path = ''a.mp3'', duration = 25, edits = []\<rparr> pending_world) =
       Inr (\<lparr>path = ''v.mp4'', duration = 25, edits = [Loop 3, Subclip 0 25]\<rparr>,
            \<lparr>path = ''a.mp3'', duration = 25, edits = []\<rparr>)
   \<and> fst (merge_match_durations demo_id \<lparr>path = ''v.mp4'', duration = 30, edits = []\<rparr>
          \<lparr>path = ''a.mp3'', duration = 10, edits = []\<rparr> pending_world) =
       Inr (\<lparr>path = ''v.mp4'', duration = 10, edits = [Subclip 0 10]\<rparr>,
            \<lparr>path = ''a.mp3'', duration = 10, edits = []\<rparr>)"
proof -
  have s: "(25::real) / 10 < 2 ^ 53"
    by simp
  obtain q i where qi: "py_truediv 25 10 = Inr q" "py_int q = Inr i"
    "fst (merge_match_durations demo_id \<lparr>path = ''v.mp4'', duration = 10, edits = []\<rparr>
            \<lparr>path = ''a.mp3'', duration = 25, edits = []\<rparr> pending_world) =
       Inr (\<lparr>path = ''v.mp4'', duration = 25, edits = [Loop (i + 1), Subclip 0 25]\<rparr>,
            \<lparr>path = ''a.mp3'', duration = 25, edits = []\<rparr>)"
    using merge_durations_reconciled[of "\<lparr>path = ''v.mp4'', duration = 10, edits = []\<rparr>"
            "\<lparr>path = ''a.mp3'', duration = 25, edits = []\<rparr>" pending_world demo_id,
            THEN conjunct1] s
    by auto
  from qi(1) have "q = Finite (5 / 2)"
    by (simp add: truediv_25_by_10)
  with qi(2) have "i = 2"
    by simp
  with qi(3) have a: "fst (merge_match_durations demo_id \<lparr>path = ''v.mp4'', duration = 10, edits = []\<rparr>
          \<lparr>path = ''a.mp3'', duration = 25, edits = []\<rparr> pending_world) =
       Inr (\<lparr>path = ''v.mp4'', duration = 25, edits = [Loop 3, Subclip 0 25]\<rparr>,
            \<lparr>path = ''a.mp3'', duration = 25, edits = []\<rparr>)"
    by simp
  have b: "fst (merge_match_durations demo_id \<lparr>path = ''v.mp4'', duration = 30, edits = []\<rparr>
          \<lparr>path = ''a.mp3'', duration = 10, edits = []\<rparr> pending_world) =
       Inr (\<lparr>path = ''v.mp4'', duration = 10, edits = [Subclip 0 10]\<rparr>,
            \<lparr>path = ''a.mp3'', duration = 10, edits = []\<rparr>)"
    using merge_durations_reconciled[of "\<lparr>path = ''v.mp4'', duration = 30, edits = []\<rparr>"
            "\<lparr>path = ''a.mp3'', duration = 10, edits = []\<rparr>" pending_world demo_id,
            THEN conjunct2, THEN conjunct1]
    by simp
  from s a b show ?thesis
    by simp
qed

text \<open>
  Claim C5, as the spec states it, lets durations count as equal within a tolerance.  The
  code compares with a strict \<^verbatim>\<open>>\<close> in both directions and has no tolerance: an audio clip one microsecond
  longer than a 10 s video makes the merge function loop the video twice and trim it.
\<close>

theorem near_equal_durations_counterexample:
  "\<bar>duration \<lparr>path = ''a.mp3'', duration = 10000001 / 1000000, edits = []\<rparr>
     - duration \<lparr>path = ''v.mp4'', duration = 10, edits = []\<rparr>\<bar> \<le> 1 / 1000000
   \<and> fst (merge_match_durations ''t'' \<lparr>path = ''v.mp4'', duration = 10, edits = []\<rparr>
          \<lparr>path = ''a.mp3'', duration = 10000001 / 1000000, edits = []\<rparr> empty_world) =
     Inr (\<lparr>path = ''v.mp4'', duration = 10000001 / 1000000,
            edits = [Loop 2, Subclip 0 (10000001 / 1000000)]\<rparr>,
          \<lparr>path = ''a.mp3'', duration = 10000001 / 1000000, edits = []\<rparr>)"
  by (simp add: fst_merge_match truediv_near_10_by_10 subclip_from_0 loop_def)

lemma edited_differs: "c\<lparr>duration := d, edits := edits c @ es\<rparr> = c \<Longrightarrow> es = []"
proof -
  assume "c\<lparr>duration := d, edits := edits c @ es\<rparr> = c"
  then have "edits (c\<lparr>duration := d, edits := edits c @ es\<rparr>) = edits c"
    by (simp only:)
  then show "es = []"
    by simp
qed

lemma subclip_changes: "subclip s t c \<noteq> Inr c"
proof
  assume "subclip s t c = Inr c"
  then obtain d x where "c\<lparr>duration := d, edits := edits c @ [x]\<rparr> = c"
    by (auto simp add: subclip_def Let_def split: if_splits)
  then have "[x] = []"
    by (rule edited_differs)
  then show False
    by simp
qed

lemma loop_subclip_changes: "subclip s t (loop n c) \<noteq> Inr c"
proof
  assume "subclip s t (loop n c) = Inr c"
  then obtain d x where "c\<lparr>duration := d, edits := edits c @ [Loop n, x]\<rparr> = c"
    by (auto simp add: subclip_def loop_def Let_def split: if_splits)
  then have "[Loop n, x] = []"
    by (rule edited_differs)
  then show False
    by simp
qed

text \<open>
  Claim C5, amended.  When the two durations are exactly equal, both processing functions
  pass both clips on as they were: no loop and no trim is applied to either.  (The one
  other outcome is that writing the progress message raises; then that exception is the
  result.)  There is no tolerance: when the durations differ, whatever the difference,
  neither function passes the two clips on as they were.
\<close>

theorem equal_durations_pass_through:
  "(duration video_clip = duration audio_clip \<longrightarrow>
      fst (merge_match_durations tid video_clip audio_clip w) =
        (case fst (update_task_status tid PROCESSING
                     [Message ''Video and audio durations match''] w) of
           None \<Rightarrow> Inr (video_clip, audio_clip)
         | Some e \<Rightarrow> Inl e)
      \<and> fst (replace_match_durations tid video_clip audio_clip w) =
        (case fst (update_task_status tid PROCESSING
                     [Message ''Video and audio durations match''] w) of
           None \<Rightarrow> Inr (video_clip, audio_clip)
         | Some e \<Rightarrow> Inl e))
   \<and> (duration video_clip \<noteq> duration audio_clip \<longrightarrow>
        fst (merge_match_durations tid video_clip audio_clip w) \<noteq> Inr (video_clip, audio_clip)
      \<and> fst (replace_match_durations tid video_clip audio_clip w)
          \<noteq> Inr (video_clip, audio_clip))"
proof (intro conjI impI)
  assume "duration video_clip = duration audio_clip"
  then show "fst (merge_match_durations tid video_clip audio_clip w) =
        (case fst (update_task_status tid PROCESSING
                     [Message ''Video and audio durations match''] w) of
           None \<Rightarrow> Inr (video_clip, audio_clip)
         | Some e \<Rightarrow> Inl e)"
    by (simp add: fst_merge_match split: option.splits del: fst_update)
next
  assume "duration video_clip = duration audio_clip"
  then show "fst (replace_match_durations tid video_clip audio_clip w) =
        (case fst (update_task_status tid PROCESSING
                     [Message ''Video and audio durations match''] w) of
           None \<Rightarrow> Inr (video_clip, audio_clip)
         | Some e \<Rightarrow> Inl e)"
    by (simp add: fst_replace_match split: option.splits del: fst_update)
next
  assume "duration video_clip \<noteq> duration audio_clip"
  then show "fst (merge_match_durations tid video_clip audio_clip w)
               \<noteq> Inr (video_clip, audio_clip)"
    using subclip_changes[of 0 "duration audio_clip" video_clip]
      loop_subclip_changes[of 0 "duration audio_clip" _ video_clip]
    by (auto simp add: fst_merge_match split: option.splits sum.splits simp del: fst_update)
next
  assume "duration video_clip \<noteq> duration audio_clip"
  then show "fst (replace_match_durations tid video_clip audio_clip w)
               \<noteq> Inr (video_clip, audio_clip)"
    using loop_subclip_changes[of 0 "duration audio_clip" _ video_clip]
    by (auto simp add: fst_replace_match split: option.splits sum.splits simp del: fst_update)
qed

text \<open>A 10 s video with 10 s of audio, and with audio one microsecond longer.\<close>

theorem equal_durations_pass_through_witness:
  "duration \<lparr>path = ''v.mp4'', duration = 10, edits = []\<rparr>
     = duration \<lparr>path = ''a.mp3'', duration = 10, edits = []\<rparr>
   \<and> fst (merge_match_durations demo_id \<lparr>path = ''v.mp4'', duration = 10, edits = []\<rparr>
          \<lparr>path = ''a.mp3'', duration = 10, edits = []\<rparr> pending_world) =
     Inr (\<lparr>path = ''v.mp4'', duration = 10, edits = []\<rparr>,
          \<lparr>path = ''a.mp3'', duration = 10, edits = []\<rparr>)
   \<and> fst (replace_match_durations demo_id \<lparr>path = ''v.mp4'', duration = 10, edits = []\<rparr>
          \<lparr>path = ''a.mp3'', duration = 10, edits = []\<rparr> pending_world) =
     Inr (\<lparr>path = ''v.mp4'', duration = 10, edits = []\<rparr>,
          \<lparr>path = ''a.mp3'', duration = 10, edits = []\<rparr>)
   \<and> duration \<lparr>path = ''v.mp4'', duration = 10, edits = []\<rparr>
       \<noteq> duration \<lparr>path = ''a.mp3'', duration = 10000001 / 1000000, edits = []\<rparr>
   \<and> fst (merge_match_durations demo_id \<lparr>path = ''v.mp4'', duration = 10, edits = []\<rparr>
          \<lparr>path = ''a.mp3'', duration = 10000001 / 1000000, edits = []\<rparr> pending_world) \<noteq>
     Inr (\<lparr>path = ''v.mp4'', duration = 10, edits = []\<rparr>,
          \<lparr>path = ''a.mp3'', duration = 10000001 / 1000000, edits = []\<rparr>)"
  using equal_durations_pass_through[of "\<lparr>path = ''v.mp4'', duration = 10, edits = []\<rparr>"
          "\<lparr>path = ''a.mp3'', duration = 10, edits = []\<rparr>" demo_id pending_world]
    equal_durations_pass_through[of "\<lparr>path = ''v.mp4'', duration = 10, edits = []\<rparr>"
          "\<lparr>path = ''a.mp3'', duration = 10000001 / 1000000, edits = []\<rparr>" demo_id pending_world]
  by simp

section \<open>Retention: properties\<close>

text \<open>
  Claim C3 asks that the task record and the cache entry of every deleted artifact go
  with it.  For an artifact of \<^verbatim>\<open>process_replace_audio\<close> the identifier is derived
  wrongly: \<^verbatim>\<open>'replaced_audio_<id>'.split('_', 1)[1]\<close> is \<^verbatim>\<open>'audio_<id>'\<close>, no task file
  has that name, and the record stays.  With bound 1 and three artifacts, the two oldest
  are deleted; the record of the one named \<^verbatim>\<open>merged_...\<close> is removed from the task files
  and from the dictionary, the record of the one named \<^verbatim>\<open>replaced_audio_...\<close> is still in
  both.
\<close>

theorem cleanup_keeps_replace_task_record:
  "map name (output_dir (cleanup_old_files retention_world)) =
     [''merged_3b241101-e2bb-4255-8caf-4136c566a962.mp4'']
   \<and> task_files (cleanup_old_files retention_world) ''6ec0bd7f-11c0-43da-975e-2a8ad9ebae0b'' = None
   \<and> tasks (cleanup_old_files retention_world) ''6ec0bd7f-11c0-43da-975e-2a8ad9ebae0b'' = None
   \<and> task_files (cleanup_old_files retention_world) ''1b9d6bcd-bbfd-4b2d-9b5d-ab8dfbbd4bed'' =
       Some (demo_task ''1b9d6bcd-bbfd-4b2d-9b5d-ab8dfbbd4bed'' ''replace_audio'' SUCCESS)
   \<and> tasks (cleanup_old_files retention_world) ''1b9d6bcd-bbfd-4b2d-9b5d-ab8dfbbd4bed'' =
       Some (demo_task ''1b9d6bcd-bbfd-4b2d-9b5d-ab8dfbbd4bed'' ''replace_audio'' SUCCESS)
   \<and> py_split1 CHR ''_'' (stem ''replaced_audio_1b9d6bcd-bbfd-4b2d-9b5d-ab8dfbbd4bed.mp4'') =
       [''replaced'', ''audio_1b9d6bcd-bbfd-4b2d-9b5d-ab8dfbbd4bed'']"
  by (simp add: cleanup_old_files_def retention_world_def py_sort_desc_def py_slice_from_def
        delete_old_file_def stem_def has_suffix_def after_last_dot_def startswith_def
        py_split1_def Let_def)

lemma py_sort_desc_filter:
  "py_sort_desc key (filter P xs) = filter P (py_sort_desc key xs)"
  by (simp add: py_sort_desc_def rev_filter filter_sort[symmetric])

lemma py_sort_desc_length [simp]: "length (py_sort_desc key xs) = length xs"
  by (simp add: py_sort_desc_def)

lemma py_sort_desc_distinct_map:
  "distinct (map f xs) \<Longrightarrow> distinct (map f (py_sort_desc key xs))"
  by (simp add: distinct_map py_sort_desc_def)

lemma delete_old_file_output:
  "output_dir (delete_old_file e w) =
     (if unlink_raises w (name e) then output_dir w
      else filter (\<lambda>x. name x \<noteq> name e) (output_dir w))"
  by (simp add: delete_old_file_def Let_def split: list.splits)

lemma delete_old_file_skip: "unlink_raises w (name e) \<Longrightarrow> delete_old_file e w = w"
  by (simp add: delete_old_file_def)

lemma delete_old_file_frame [simp]:
  "written (delete_old_file e w) = written w"
  "clock (delete_old_file e w) = clock w"
  "unlink_raises (delete_old_file e w) = unlink_raises w"
  "max_output_files (delete_old_file e w) = max_output_files w"
  "temp_dir (delete_old_file e w) = temp_dir w"
  "open_clips (delete_old_file e w) = open_clips w"
  "write_raises (delete_old_file e w) = write_raises w"
  "write_count (delete_old_file e w) = write_count w"
  by (simp_all add: delete_old_file_def Let_def split: list.splits)

lemma delete_all_frame [simp]:
  "written (foldl (\<lambda>w' e. delete_old_file e w') w es) = written w"
  "clock (foldl (\<lambda>w' e. delete_old_file e w') w es) = clock w"
  "unlink_raises (foldl (\<lambda>w' e. delete_old_file e w') w es) = unlink_raises w"
  "max_output_files (foldl (\<lambda>w' e. delete_old_file e w') w es) = max_output_files w"
  "temp_dir (foldl (\<lambda>w' e. delete_old_file e w') w es) = temp_dir w"
  "open_clips (foldl (\<lambda>w' e. delete_old_file e w') w es) = open_clips w"
  "write_raises (foldl (\<lambda>w' e. delete_old_file e w') w es) = write_raises w"
  "write_count (foldl (\<lambda>w' e. delete_old_file e w') w es) = write_count w"
  by (induction es arbitrary: w) simp_all

lemma cleanup_frame [simp]:
  "written (cleanup_old_files w) = written w"
  "clock (cleanup_old_files w) = clock w"
  "unlink_raises (cleanup_old_files w) = unlink_raises w"
  "max_output_files (cleanup_old_files w) = max_output_files w"
  "temp_dir (cleanup_old_files w) = temp_dir w"
  "open_clips (cleanup_old_files w) = open_clips w"
  "write_raises (cleanup_old_files w) = write_raises w"
  "write_count (cleanup_old_files w) = write_count w"
  by (simp_all add: cleanup_old_files_def Let_def)

lemma delete_all_output:
  "output_dir (foldl (\<lambda>w' e. delete_old_file e w') w es) =
     filter (\<lambda>x. \<forall>e\<in>set es. unlink_raises w (name e) \<or> name x \<noteq> name e) (output_dir w)"
proof (induction es arbitrary: w)
  case Nil
  show ?case by simp
next
  case (Cons e es)
  show ?case
    by (simp add: Cons.IH delete_old_file_output)
qed

lemma delete_all_skip:
  "\<forall>e\<in>set es. unlink_raises w (name e) \<Longrightarrow> foldl (\<lambda>w' e. delete_old_file e w') w es = w"
  by (induction es arbitrary: w) (simp_all add: delete_old_file_skip)

lemma cleanup_under_limit:
  "int (length (filter is_file (output_dir w))) \<le> max_output_files w \<Longrightarrow> cleanup_old_files w = w"
  by (simp add: cleanup_old_files_def Let_def)

lemma cleanup_twice:
  assumes d: "distinct (map name (output_dir w))" and n: "0 \<le> max_output_files w"
  shows "cleanup_old_files (cleanup_old_files w) = cleanup_old_files w"
proof (cases "int (length (filter is_file (output_dir w))) \<le> max_output_files w")
  case True
  then show ?thesis by (simp add: cleanup_under_limit)
next
  case False
  define n where "n = nat (max_output_files w)"
  define S where "S = py_sort_desc st_ctime (filter is_file (output_dir w))"
  define D where "D = drop n S"
  define P where "P = (\<lambda>x::entry. \<forall>e\<in>set D. unlink_raises w (name e) \<or> name x \<noteq> name e)"
  define w' where "w' = foldl (\<lambda>w' e. delete_old_file e w') w D"
  have len: "n < length S"
    using False n by (simp add: n_def S_def)
  have sl: "py_slice_from (max_output_files w) S = D"
    using n by (simp add: py_slice_from_def D_def n_def)
  have "cleanup_old_files w =
          foldl (\<lambda>w' e. delete_old_file e w') w (py_slice_from (max_output_files w) S)"
    using False by (simp add: cleanup_old_files_def Let_def S_def)
  then have cw: "cleanup_old_files w = w'"
    by (simp add: sl w'_def)
  have out: "output_dir w' = filter P (output_dir w)"
    by (simp add: w'_def delete_all_output P_def)
  have dS: "distinct (map name S)"
    unfolding S_def using d by (intro py_sort_desc_distinct_map) (simp add: distinct_map_filter)
  have S': "py_sort_desc st_ctime (filter is_file (output_dir w')) = filter P S"
    by (simp add: out S_def py_sort_desc_filter[symmetric]) metis
  have split: "S = take n S @ D"
    by (simp add: D_def)
  have disj: "set (map name (take n S)) \<inter> set (map name D) = {}"
    using dS split by (metis distinct_append map_append)
  have keep: "filter P (take n S) = take n S"
    using disj by (auto simp add: P_def filter_id_conv)
  have rest: "\<forall>e\<in>set (filter P D). unlink_raises w' (name e)"
    by (auto simp add: P_def w'_def)
  have S'': "py_sort_desc st_ctime (filter is_file (output_dir w')) = take n S @ filter P D"
    using S' split keep by (metis filter_append)
  have ln: "length (take n S) = n"
    using len by simp
  have sl': "py_slice_from (max_output_files w') (take n S @ filter P D) = filter P D"
    using n ln by (simp add: py_slice_from_def w'_def n_def[symmetric])
  have "cleanup_old_files w' = w'"
    using rest by (simp add: cleanup_old_files_def Let_def S'' sl' delete_all_skip)
  then show ?thesis by (simp add: cw)
qed

text \<open>
  Claim C9.  In a directory (file names are distinct) and with a retention bound that is
  not negative (it starts at 10 and the configuration route keeps it between 1 and 100),
  a second run of \<^verbatim>\<open>cleanup_old_files\<close> right after a first one changes nothing: not the
  artifacts, and no other part of the state.  A run on a directory that holds no more
  files than the bound changes nothing either.  Files whose \<^verbatim>\<open>unlink\<close> raises are
  covered: they survive both runs.
\<close>

theorem cleanup_idempotent:
  assumes "distinct (map name (output_dir w))" and "0 \<le> max_output_files w"
  shows "cleanup_old_files (cleanup_old_files w) = cleanup_old_files w
       \<and> (int (length (filter is_file (output_dir w))) \<le> max_output_files w
            \<longrightarrow> cleanup_old_files w = w)"
  using assms by (simp add: cleanup_twice cleanup_under_limit)

text \<open>Three artifacts under bound 1, and the empty directory under bound 10.\<close>

theorem cleanup_idempotent_witness:
  "distinct (map name (output_dir retention_world))
   \<and> 0 \<le> max_output_files retention_world
   \<and> cleanup_old_files (cleanup_old_files retention_world) = cleanup_old_files retention_world
   \<and> int (length (filter is_file (output_dir empty_world))) \<le> max_output_files empty_world
   \<and> cleanup_old_files empty_world = empty_world"
proof -
  have d: "distinct (map name (output_dir retention_world))"
    by (simp add: retention_world_def)
  have n: "0 \<le> max_output_files retention_world"
    by (simp add: retention_world_def)
  have d0: "distinct (map name (output_dir empty_world))"
    by (simp add: empty_world_def)
  have n0: "0 \<le> max_output_files empty_world"
    by (simp add: empty_world_def)
  have l0: "int (length (filter is_file (output_dir empty_world))) \<le> max_output_files empty_world"
    by (simp add: empty_world_def)
  show ?thesis
    using cleanup_idempotent[OF d n] cleanup_idempotent[OF d0 n0] d n l0 by simp
qed

section \<open>Processing runs: frame lemmas\<close>

lemma clip_frame [simp]:
  "task_files (open_clip tid v w) = task_files w"
  "tasks (open_clip tid v w) = tasks w"
  "output_dir (open_clip tid v w) = output_dir w"
  "temp_dir (open_clip tid v w) = temp_dir w"
  "max_output_files (open_clip tid v w) = max_output_files w"
  "clock (open_clip tid v w) = clock w"
  "unlink_raises (open_clip tid v w) = unlink_raises w"
  "write_raises (open_clip tid v w) = write_raises w"
  "write_count (open_clip tid v w) = write_count w"
  "written (open_clip tid v w) = written w"
  "open_clips (open_clip tid v w) = open_clips w @ [(tid, v)]"
  "task_files (close_clip tid v w) = task_files w"
  "tasks (close_clip tid v w) = tasks w"
  "output_dir (close_clip tid v w) = output_dir w"
  "temp_dir (close_clip tid v w) = temp_dir w"
  "max_output_files (close_clip tid v w) = max_output_files w"
  "clock (close_clip tid v w) = clock w"
  "unlink_raises (close_clip tid v w) = unlink_raises w"
  "write_raises (close_clip tid v w) = write_raises w"
  "write_count (close_clip tid v w) = write_count w"
  "written (close_clip tid v w) = written w"
  "open_clips (close_clip tid v w) = filter (\<lambda>x. x \<noteq> (tid, v)) (open_clips w)"
  by (simp_all add: open_clip_def close_clip_def)

lemma write_output_frame [simp]:
  "task_files (write_output n sz w) = task_files w"
  "tasks (write_output n sz w) = tasks w"
  "temp_dir (write_output n sz w) = temp_dir w"
  "max_output_files (write_output n sz w) = max_output_files w"
  "clock (write_output n sz w) = Suc (clock w)"
  "unlink_raises (write_output n sz w) = unlink_raises w"
  "write_raises (write_output n sz w) = write_raises w"
  "write_count (write_output n sz w) = write_count w"
  "written (write_output n sz w) = written w"
  "open_clips (write_output n sz w) = open_clips w"
  "output_dir (write_output n sz w) =
     filter (\<lambda>x. name x \<noteq> n) (output_dir w)
     @ [\<lparr>name = n, st_ctime = clock w, is_file = True, st_size = sz\<rparr>]"
  by (simp_all add: write_output_def now_def)

lemma remove_temp_frame [simp]:
  "task_files (remove_temp_files vp ap w) = task_files w"
  "tasks (remove_temp_files vp ap w) = tasks w"
  "output_dir (remove_temp_files vp ap w) = output_dir w"
  "max_output_files (remove_temp_files vp ap w) = max_output_files w"
  "clock (remove_temp_files vp ap w) = clock w"
  "unlink_raises (remove_temp_files vp ap w) = unlink_raises w"
  "write_raises (remove_temp_files vp ap w) = write_raises w"
  "write_count (remove_temp_files vp ap w) = write_count w"
  "written (remove_temp_files vp ap w) = written w"
  "open_clips (remove_temp_files vp ap w) = open_clips w"
  "temp_dir (remove_temp_files vp ap w) =
     filter (\<lambda>p. p \<noteq> vp \<and> p \<noteq> ap) (temp_dir w)"
  by (simp_all add: remove_temp_files_def)

lemma get_task_frame [simp]:
  "fst (get_task t (open_clip tid v w)) = fst (get_task t w)"
  "fst (get_task t (close_clip tid v w)) = fst (get_task t w)"
  "fst (get_task t (write_output n sz w)) = fst (get_task t w)"
  "fst (get_task t (remove_temp_files vp ap w)) = fst (get_task t w)"
  by (simp_all add: fst_get_task split: option.splits)

lemma known_frame [simp]:
  "known t (open_clip tid v w) = known t w"
  "known t (close_clip tid v w) = known t w"
  "known t (write_output n sz w) = known t w"
  "known t (remove_temp_files vp ap w) = known t w"
  by (simp_all add: known_def)

lemma written_length_update [simp]:
  "length (written (snd (update_task_status tid st kws w))) =
     (if known tid w \<and> write_raises w (write_count w) = None
      then Suc (length (written w)) else length (written w))"
  by (auto simp add: update_written known_def updated_record_def split: option.splits)

lemma new_writes_refl [simp]: "new_writes w w = []"
  by (simp add: new_writes_def)

lemma statuses_refl [simp]: "statuses w w = []"
  by (simp add: statuses_def)

lemma statuses_frame [simp]:
  "statuses w0 (open_clip tid v w) = statuses w0 w"
  "statuses w0 (close_clip tid v w) = statuses w0 w"
  "statuses w0 (write_output n sz w) = statuses w0 w"
  "statuses w0 (remove_temp_files vp ap w) = statuses w0 w"
  by (simp_all add: statuses_def new_writes_def)

lemma statuses_cleanup [simp]: "statuses w0 (cleanup_old_files w) = statuses w0 w"
  by (simp add: statuses_def new_writes_def)

lemma statuses_update [simp]:
  assumes "length (written w0) \<le> length (written w)"
  shows "statuses w0 (snd (update_task_status tid st kws w)) =
     statuses w0 w @
       (if known tid w \<and> write_raises w (write_count w) = None then [st] else [])"
proof (cases "updated_record tid st kws w")
  case None
  then have "\<not> known tid w"
    using updated_record_known[of tid st kws w] by simp
  with None show ?thesis
    by (simp add: statuses_def new_writes_def update_written)
next
  case (Some td)
  then have k: "known tid w"
    using updated_record_known[of tid st kws w] by simp
  have "status td = st"
    using Some by (simp add: updated_record_fields)
  with Some k assms show ?thesis
    by (simp add: statuses_def new_writes_def update_written)
qed

lemma updated_record_failed:
  assumes "updated_record tid st [Message m, Error s] w = Some td"
  shows "status td = st \<and> error td = Some s \<and> message td = m"
  using assms by (auto simp add: updated_record_def)

lemma updated_record_success:
  assumes "updated_record tid st [Message m, Output_file n, File_size z] w = Some td"
  shows "status td = st \<and> output_file td = Some n \<and> file_size td = Some z"
  using assms by (auto simp add: updated_record_def)

lemma updated_failed_exists:
  assumes "known tid w"
  shows "\<exists>td. updated_record tid st [Message m, Error s] w = Some td
           \<and> status td = st \<and> error td = Some s"
proof -
  from assms obtain td where td: "updated_record tid st [Message m, Error s] w = Some td"
    using updated_record_known[of tid st "[Message m, Error s]" w] by auto
  then show ?thesis
    using updated_record_failed[OF td] by simp
qed

lemma updated_success_exists:
  assumes "known tid w"
  shows "\<exists>td. updated_record tid st [Message m, Output_file n, File_size z] w = Some td
           \<and> status td = st \<and> output_file td = Some n"
proof -
  from assms obtain td where
    td: "updated_record tid st [Message m, Output_file n, File_size z] w = Some td"
    using updated_record_known[of tid st "[Message m, Output_file n, File_size z]" w] by auto
  then show ?thesis
    using updated_record_success[OF td] by simp
qed

lemma updated_failed_keeps_output:
  assumes "known tid w"
  shows "\<exists>td. updated_record tid st [Message m, Error s]
                (snd (update_task_status tid st' [Message m', Output_file n, File_size z] w))
              = Some td
           \<and> status td = st \<and> error td = Some s \<and> output_file td = Some n"
proof -
  from assms obtain td0 where "fst (get_task tid w) = Some td0"
    by (auto simp add: known_def)
  then show ?thesis
    by (simp add: updated_record_def)
qed

lemma engine_simps [simp]:
  "VideoFileClip (steady_engine v a) p = Inr \<lparr>path = p, duration = v, edits = []\<rparr>"
  "AudioFileClip (steady_engine v a) p = Inr \<lparr>path = p, duration = a, edits = []\<rparr>"
  "write_videofile (steady_engine v a) fc = Inr 1000"
  "VideoFileClip (full_disk_engine v a) p = Inr \<lparr>path = p, duration = v, edits = []\<rparr>"
  "AudioFileClip (full_disk_engine v a) p = Inr \<lparr>path = p, duration = a, edits = []\<rparr>"
  "write_videofile (full_disk_engine v a) fc =
     Inl (EngineError ''[Errno 28] No space left on device'')"
  by (simp_all add: steady_engine_def full_disk_engine_def)

lemma io_error_fields [simp]:
  "tasks io_error_world demo_id = Some pending_task"
  "output_dir io_error_world = []"
  "max_output_files io_error_world = 10"
  "clock io_error_world = 2"
  "write_raises io_error_world =
     (\<lambda>n. if n = 4 then Some (OSError ''[Errno 5] Input/output error'') else None)"
  "write_count io_error_world = 1"
  "open_clips io_error_world = []"
  "written io_error_world = [(demo_id, pending_task)]"
  by (simp_all add: io_error_world_def)

lemma known_io_error [simp]: "known demo_id io_error_world"
  by (simp add: known_iff)

lemmas run_simps =
  merge_try_def replace_try_def process_merge_video_audio_def process_replace_audio_def
  Let_def case_prod_beta fst_merge_match fst_replace_match


lemma replace_try_known:
  "fst (replace_try eng tid vp ap w) \<noteq> None \<longrightarrow>
     known tid (snd (replace_try eng tid vp ap w)) = known tid w"
  by (simp add: replace_try_def Let_def case_prod_beta split: option.split sum.split)


lemma replace_failed_record:
  assumes "known tid w" and "fst (replace_try eng tid vp ap w) = Some e"
  shows "\<exists>td. fst (get_task tid (process_replace_audio eng tid vp ap w)) = Some td
            \<and> status td = FAILED \<and> error td = Some (exn_str e)"
proof -
  have "known tid (snd (replace_try eng tid vp ap w))"
    using assms by (simp add: replace_try_known)
  from updated_failed_exists[OF this] show ?thesis
    using assms(2) by (simp add: process_replace_audio_def case_prod_beta)
qed

section \<open>Audio looping under the replace policy\<close>

text \<open>
  Claim C2 asks that, under the replace policy, audio shorter than the video is looped and
  trimmed to the length of the video.  In \<^verbatim>\<open>process_replace_audio\<close> that branch calls
  \<^verbatim>\<open>audio_clip.loop(loops_needed)\<close>, a method that the audio clips of the library do not
  have.  With a 30 s video and 10 s of audio the matching step ends in \<^verbatim>\<open>AttributeError\<close>
  instead of a pair of clips; the run writes \<^verbatim>\<open>processing\<close> twice and then \<^verbatim>\<open>failed\<close>,
  the record carries the text of that error, and nothing is written to the output
  directory.
\<close>

theorem replace_audio_loop_raises:
  "fst (replace_match_durations demo_id \<lparr>path = ''v.mp4'', duration = 30, edits = []\<rparr>
          \<lparr>path = ''a.mp3'', duration = 10, edits = []\<rparr> pending_world) =
     Inl (AttributeError ''AudioFileClip'' ''loop'')
   \<and> fst (replace_try (steady_engine 30 10) demo_id ''v.mp4'' ''a.mp3'' pending_world) =
       Some (AttributeError ''AudioFileClip'' ''loop'')
   \<and> statuses pending_world
        (process_replace_audio (steady_engine 30 10) demo_id ''v.mp4'' ''a.mp3'' pending_world)
       = [PROCESSING, PROCESSING, FAILED]
   \<and> (\<exists>td. fst (get_task demo_id
                (process_replace_audio (steady_engine 30 10) demo_id ''v.mp4'' ''a.mp3''
                   pending_world)) = Some td
          \<and> status td = FAILED
          \<and> error td = Some (exn_str (AttributeError ''AudioFileClip'' ''loop'')))
   \<and> output_dir
        (process_replace_audio (steady_engine 30 10) demo_id ''v.mp4'' ''a.mp3'' pending_world)
       = []"
proof -
  have m: "fst (replace_match_durations demo_id \<lparr>path = ''v.mp4'', duration = 30, edits = []\<rparr>
          \<lparr>path = ''a.mp3'', duration = 10, edits = []\<rparr> pending_world) =
     Inl (AttributeError ''AudioFileClip'' ''loop'')"
    by (simp add: fst_replace_match truediv_30_by_10)
  have t: "fst (replace_try (steady_engine 30 10) demo_id ''v.mp4'' ''a.mp3'' pending_world) =
       Some (AttributeError ''AudioFileClip'' ''loop'')"
    by (simp add: run_simps truediv_30_by_10)
  have s: "statuses pending_world
        (process_replace_audio (steady_engine 30 10) demo_id ''v.mp4'' ''a.mp3'' pending_world)
       = [PROCESSING, PROCESSING, FAILED]"
    by (simp add: run_simps truediv_30_by_10)
  have o: "output_dir
        (process_replace_audio (steady_engine 30 10) demo_id ''v.mp4'' ''a.mp3'' pending_world)
       = []"
    by (simp add: run_simps truediv_30_by_10)
  have "\<exists>td. fst (get_task demo_id
                (process_replace_audio (steady_engine 30 10) demo_id ''v.mp4'' ''a.mp3''
                   pending_world)) = Some td
          \<and> status td = FAILED
          \<and> error td = Some (exn_str (AttributeError ''AudioFileClip'' ''loop''))"
    using replace_failed_record[OF known_pending t] .
  with m t s o show ?thesis
    by (intro conjI)
qed

section \<open>Task lifecycle: properties\<close>

text \<open>
  Claim C4 asks that a status never regresses and that a record which has reached
  \<^verbatim>\<open>success\<close> or \<^verbatim>\<open>failed\<close> is not changed again.  \<^verbatim>\<open>update_task_status\<close> changes the
  cached record in place and only then writes the task file, inside the \<^verbatim>\<open>try\<close> block.
  When the write of the \<^verbatim>\<open>success\<close> record is refused, the run has encoded its output
  and the record in \<^verbatim>\<open>tasks\<close> says \<^verbatim>\<open>success\<close> and names that output; the exception then
  reaches the \<^verbatim>\<open>except\<close> block, whose own update rewrites the same record to \<^verbatim>\<open>failed\<close>.
  The record ends \<^verbatim>\<open>failed\<close>, with the error text of the write, and still names the
  output file; the task files have seen \<^verbatim>\<open>processing\<close> three times and then \<^verbatim>\<open>failed\<close>.
\<close>

theorem success_rewritten_to_failed:
  "fst (merge_try (steady_engine 10 25) demo_id ''v.mp4'' ''a.mp3'' io_error_world) =
     Some (OSError ''[Errno 5] Input/output error'')
   \<and> map name (output_dir
        (snd (merge_try (steady_engine 10 25) demo_id ''v.mp4'' ''a.mp3'' io_error_world)))
       = [''merged_'' @ demo_id @ ''.mp4'']
   \<and> (\<exists>td. fst (get_task demo_id
                (snd (merge_try (steady_engine 10 25) demo_id ''v.mp4'' ''a.mp3''
                        io_error_world))) = Some td
          \<and> status td = SUCCESS
          \<and> output_file td = Some (''merged_'' @ demo_id @ ''.mp4''))
   \<and> (\<exists>td. fst (get_task demo_id
                (process_merge_video_audio (steady_engine 10 25) demo_id ''v.mp4'' ''a.mp3''
                   io_error_world)) = Some td
          \<and> status td = FAILED
          \<and> error td = Some ''[Errno 5] Input/output error''
          \<and> output_file td = Some (''merged_'' @ demo_id @ ''.mp4''))
   \<and> statuses io_error_world
        (process_merge_video_audio (steady_engine 10 25) demo_id ''v.mp4'' ''a.mp3''
           io_error_world)
       = [PROCESSING, PROCESSING, PROCESSING, FAILED]"
proof -
  have t: "fst (merge_try (steady_engine 10 25) demo_id ''v.mp4'' ''a.mp3'' io_error_world) =
     Some (OSError ''[Errno 5] Input/output error'')"
    by (simp add: run_simps truediv_25_by_10 subclip_from_0 loop_def)
  have o: "map name (output_dir
        (snd (merge_try (steady_engine 10 25) demo_id ''v.mp4'' ''a.mp3'' io_error_world)))
       = [''merged_'' @ demo_id @ ''.mp4'']"
    by (simp add: run_simps truediv_25_by_10 subclip_from_0 loop_def)
  have s: "\<exists>td. fst (get_task demo_id
                (snd (merge_try (steady_engine 10 25) demo_id ''v.mp4'' ''a.mp3''
                        io_error_world))) = Some td
          \<and> status td = SUCCESS
          \<and> output_file td = Some (''merged_'' @ demo_id @ ''.mp4'')"
    by (simp add: run_simps truediv_25_by_10 subclip_from_0 loop_def)
       (rule updated_success_exists, simp)
  have f: "\<exists>td. fst (get_task demo_id
                (process_merge_video_audio (steady_engine 10 25) demo_id ''v.mp4'' ''a.mp3''
                   io_error_world)) = Some td
          \<and> status td = FAILED
          \<and> error td = Some ''[Errno 5] Input/output error''
          \<and> output_file td = Some (''merged_'' @ demo_id @ ''.mp4'')"
    by (simp add: run_simps truediv_25_by_10 subclip_from_0 loop_def)
       (rule updated_failed_keeps_output, simp)
  have h: "statuses io_error_world
        (process_merge_video_audio (steady_engine 10 25) demo_id ''v.mp4'' ''a.mp3''
           io_error_world)
       = [PROCESSING, PROCESSING, PROCESSING, FAILED]"
    by (simp add: run_simps truediv_25_by_10 subclip_from_0 loop_def)
  from t o s f h show ?thesis
    by (intro conjI)
qed

section \<open>Degenerate durations: properties\<close>


lemma py_int_error [simp]: "py_int q \<noteq> Inl ZeroDivisionError"
  by (cases q) simp_all

lemma subclip_error [simp]: "subclip s t c \<noteq> Inl ZeroDivisionError"
  by (simp add: subclip_def Let_def)





section \<open>Clip resources: properties\<close>

text \<open>
  Claim C7 asks that every clip opened in a run is closed on every exit path.  The three
  \<^verbatim>\<open>close()\<close> calls stand inside the \<^verbatim>\<open>try\<close> block after the encode, and neither
  \<^verbatim>\<open>except\<close> nor \<^verbatim>\<open>finally\<close> closes anything.  When the encode raises (here: the disk
  is full), both processing functions end with the video clip, the audio clip and the
  final clip still open; when the encode succeeds, none is left open.
\<close>

theorem clips_left_open_on_failure:
  "fst (merge_try (full_disk_engine 10 25) demo_id ''v.mp4'' ''a.mp3'' pending_world) =
     Some (EngineError ''[Errno 28] No space left on device'')
   \<and> open_clips pending_world = []
   \<and> open_clips (process_merge_video_audio (full_disk_engine 10 25) demo_id ''v.mp4'' ''a.mp3''
        pending_world)
     = [(demo_id, Video_clip), (demo_id, Audio_clip), (demo_id, Final_clip)]
   \<and> open_clips (process_replace_audio (full_disk_engine 10 25) demo_id ''v.mp4'' ''a.mp3''
        pending_world)
     = [(demo_id, Video_clip), (demo_id, Audio_clip), (demo_id, Final_clip)]
   \<and> open_clips (process_merge_video_audio (steady_engine 10 25) demo_id ''v.mp4'' ''a.mp3''
        pending_world) = []"
proof -
  have t: "fst (merge_try (full_disk_engine 10 25) demo_id ''v.mp4'' ''a.mp3'' pending_world) =
     Some (EngineError ''[Errno 28] No space left on device'')"
    by (simp add: run_simps truediv_25_by_10 subclip_from_0 loop_def)
  have p: "open_clips pending_world = []"
    by simp
  have m: "open_clips (process_merge_video_audio (full_disk_engine 10 25) demo_id ''v.mp4''
             ''a.mp3'' pending_world)
     = [(demo_id, Video_clip), (demo_id, Audio_clip), (demo_id, Final_clip)]"
    by (simp add: run_simps truediv_25_by_10 subclip_from_0 loop_def)
  have r: "open_clips (process_replace_audio (full_disk_engine 10 25) demo_id ''v.mp4''
             ''a.mp3'' pending_world)
     = [(demo_id, Video_clip), (demo_id, Audio_clip), (demo_id, Final_clip)]"
    by (simp add: run_simps truediv_25_by_10 subclip_from_0 loop_def)
  have s: "open_clips (process_merge_video_audio (steady_engine 10 25) demo_id ''v.mp4''
             ''a.mp3'' pending_world) = []"
    by (simp add: run_simps truediv_25_by_10 subclip_from_0 loop_def)
  from t p m r s show ?thesis by simp
qed

section \<open>Routes and artifact names: properties\<close>

lemma split_on_parts: "p \<in> set (split_on c s) \<Longrightarrow> set p \<subseteq> set s"
proof (induction s arbitrary: p)
  case Nil
  then show ?case by simp
next
  case (Cons x xs)
  show ?case
  proof (cases "x = c")
    case True
    with Cons.prems Cons.IH[of p] show ?thesis by auto
  next
    case False
    show ?thesis
    proof (cases "split_on c xs")
      case Nil
      with False Cons.prems show ?thesis by simp
    next
      case (Cons q qs)
      show ?thesis
      proof (cases "p = x # q")
        case True
        have "q \<in> set (split_on c xs)" using Cons by simp
        then have "set q \<subseteq> set xs" by (rule Cons.IH)
        with True show ?thesis by auto
      next
        case ne: False
        with False Cons Cons.prems have "p \<in> set (split_on c xs)" by simp
        then have "set p \<subseteq> set xs" by (rule Cons.IH)
        then show ?thesis by auto
      qed
    qed
  qed
qed

lemma set_path_name: "set (path_name s) \<subseteq> set s"
proof (cases "filter (\<lambda>p. p \<noteq> [] \<and> p \<noteq> ''.'') (split_on CHR ''/'' s)")
  case Nil
  then show ?thesis by (simp add: path_name_def)
next
  case (Cons p ps)
  then have "path_name s = last (p # ps)"
    by (simp only: path_name_def list.case)
  moreover have "last (p # ps) \<in> set (p # ps)"
    by (rule last_in_set) simp
  ultimately have "path_name s \<in> set (filter (\<lambda>p. p \<noteq> [] \<and> p \<noteq> ''.'') (split_on CHR ''/'' s))"
    using Cons by (simp only:)
  then have "path_name s \<in> set (split_on CHR ''/'' s)"
    by simp
  then show ?thesis
    by (rule split_on_parts)
qed

lemma suffix_dot: "suffix n \<noteq> [] \<Longrightarrow> CHR ''.'' \<in> set n"
  by (simp add: suffix_def has_suffix_def split: if_splits)

lemma lower_empty: "lower s = [] \<longleftrightarrow> s = []"
  by (simp add: lower_def)

lemma extension_nonempty:
  "e \<in> set video_extensions \<union> set audio_extensions \<Longrightarrow> e \<noteq> []"
  unfolding video_extensions_def audio_extensions_def by fastforce

lemma supported_has_dot:
  assumes "lower (suffix (path_name f)) \<in> set video_extensions \<union> set audio_extensions"
  shows "f \<noteq> [] \<and> CHR ''.'' \<in> set f"
proof -
  from assms have "lower (suffix (path_name f)) \<noteq> []"
    by (rule extension_nonempty)
  then have "suffix (path_name f) \<noteq> []"
    by (simp only: lower_empty not_False_eq_True)
  then have "CHR ''.'' \<in> set (path_name f)"
    by (rule suffix_dot)
  with set_path_name[of f] show ?thesis
    by auto
qed

lemma coerce_supported:
  assumes "lower (suffix (path_name f)) \<in> set exts"
    and "set exts \<subseteq> set video_extensions \<union> set audio_extensions"
  shows "coerce_filename exts dn de (Some f) = (lower (suffix (path_name f)), f)"
proof -
  have "f \<noteq> [] \<and> CHR ''.'' \<in> set f"
    using assms by (intro supported_has_dot) auto
  then show ?thesis
    using assms(1) by (simp add: coerce_filename_def Let_def)
qed

lemma suffix_clip: "lower (suffix (path_name ''clip.mp4'')) = ''.mp4''"
  by (simp add: lower_def lower_char_def suffix_def has_suffix_def after_last_dot_def path_name_def)

lemma suffix_song: "lower (suffix (path_name ''song.mp3'')) = ''.mp3''"
  by (simp add: lower_def lower_char_def suffix_def has_suffix_def after_last_dot_def path_name_def)

lemma create_task_scheduled:
  "(\<exists>resp w1. create_task tid kind cm ans bg vn an tvp tap ep io w = (Inr (resp, job), w1))
     \<longleftrightarrow> io = None \<and> write_raises w (write_count w) = None \<and> job = Job bg tid tvp tap"
  by (cases io; cases "write_raises w (write_count w)")
     (auto simp add: create_task_def now_def save_task_def Let_def)

lemma create_task_pending:
  assumes "create_task tid kind cm ans bg vn an tvp tap ep io w = (Inr (resp, job), w1)"
  shows "\<exists>td. fst (get_task tid w1) = Some td \<and> status td = PENDING \<and> task_type td = kind"
  using assms
  by (cases io; cases "write_raises w (write_count w)")
     (auto simp add: create_task_def now_def save_task_def get_task_def Let_def)

lemma loop_route_pending:
  assumes "loop_video_to_audio tid vf af io w = (Inr (resp, job), w1)"
  shows "\<exists>td vp ap. task_type td = ''loop_video''
            \<and> fst (get_task tid w1) = Some td
            \<and> job = Job Process_merge_video_audio tid vp ap"
proof -
  from assms obtain v a where va: "vf = Some v" "af = Some a"
    by (cases vf; cases af) (simp_all add: loop_video_to_audio_def)
  from assms va obtain tvp tap where c: "create_task tid ''loop_video''
      ''Task created, waiting to start video looping''
      (''Video looping task created successfully. ''
       @ ''The video will be looped to match audio duration.'')
      Process_merge_video_audio v a tvp tap ''Error creating task: '' io w = (Inr (resp, job), w1)"
    by (auto simp add: loop_video_to_audio_def Let_def split: if_splits)
  from create_task_pending[OF c] obtain td where
    "fst (get_task tid w1) = Some td" "task_type td = ''loop_video''"
    by blast
  moreover have "job = Job Process_merge_video_audio tid tvp tap"
    using c create_task_scheduled by blast
  ultimately show ?thesis
    by blast
qed

lemma merge_route_pending:
  assumes "merge_video_audio tid vf af io w = (Inr (resp, job), w1)"
  shows "\<exists>vp ap. job = Job Process_merge_video_audio tid vp ap"
proof -
  from assms obtain kind cm ans vn an tvp tap where c: "create_task tid kind cm ans
      Process_merge_video_audio vn an tvp tap ''Error creating task: '' io w
        = (Inr (resp, job), w1)"
    by (auto simp add: merge_video_audio_def Let_def case_prod_beta split: if_splits)
  then have "job = Job Process_merge_video_audio tid tvp tap"
    using create_task_scheduled by blast
  then show ?thesis
    by blast
qed

lemma loop_accepts_as_merge:
  assumes "loop_video_to_audio tid vf af io w = (Inr (resp, job), w1)"
  shows "\<exists>resp' w1'. merge_video_audio tid vf af io w = (Inr (resp', job), w1')"
proof -
  from assms obtain v a where va: "vf = Some v" "af = Some a"
    by (cases vf; cases af) (simp_all add: loop_video_to_audio_def)
  have ev: "lower (suffix (path_name v)) \<in> set video_extensions"
  proof (rule ccontr)
    assume "lower (suffix (path_name v)) \<notin> set video_extensions"
    with assms va show False
      by (simp add: loop_video_to_audio_def Let_def)
  qed
  have ea: "lower (suffix (path_name a)) \<in> set audio_extensions"
  proof (rule ccontr)
    assume "lower (suffix (path_name a)) \<notin> set audio_extensions"
    with assms va ev show False
      by (simp add: loop_video_to_audio_def Let_def)
  qed
  define tvp where "tvp = ''temp/video_'' @ tid @ lower (suffix (path_name v))"
  define tap where "tap = ''temp/audio_'' @ tid @ lower (suffix (path_name a))"
  have l: "loop_video_to_audio tid vf af io w =
             create_task tid ''loop_video'' ''Task created, waiting to start video looping''
               (''Video looping task created successfully. ''
                @ ''The video will be looped to match audio duration.'')
               Process_merge_video_audio v a tvp tap ''Error creating task: '' io w"
    using va ev ea by (simp add: loop_video_to_audio_def Let_def tvp_def tap_def)
  with assms have sched: "io = None \<and> write_raises w (write_count w) = None
      \<and> job = Job Process_merge_video_audio tid tvp tap"
    using create_task_scheduled[of tid "''loop_video''" _ _ Process_merge_video_audio v a
        tvp tap "''Error creating task: ''" io w job]
    by auto
  have cv: "coerce_filename video_extensions ''video'' ''.mp4'' (Some v) =
              (lower (suffix (path_name v)), v)"
    using ev by (rule coerce_supported) simp
  have ca: "coerce_filename audio_extensions ''audio'' ''.mp3'' (Some a) =
              (lower (suffix (path_name a)), a)"
    using ea by (rule coerce_supported) simp
  have m: "merge_video_audio tid vf af io w =
             create_task tid ''merge'' ''Task created, waiting to start processing''
               ''Task created successfully. Use /task/{task_id}/status to check progress.''
               Process_merge_video_audio v a tvp tap ''Error creating task: '' io w"
    using ev ea by (simp add: merge_video_audio_def va cv ca tvp_def tap_def)
  show ?thesis
    unfolding m using sched
    by (simp only: create_task_scheduled)
qed

lemma grows_refl [simp]: "grows P w w"
  by (simp add: grows_def)

lemma grows_frame [simp]:
  "grows P w0 (open_clip tid v w) = grows P w0 w"
  "grows P w0 (close_clip tid v w) = grows P w0 w"
  "grows P w0 (write_output n sz w) = grows P w0 w"
  "grows P w0 (remove_temp_files vp ap w) = grows P w0 w"
  "grows P w0 (cleanup_old_files w) = grows P w0 w"
  by (simp_all add: grows_def new_writes_def)

lemma grows_update:
  assumes "grows P w0 w"
    and "\<And>td. updated_record tid st kws w = Some td \<Longrightarrow> P td"
  shows "grows P w0 (snd (update_task_status tid st kws w))"
proof -
  obtain new where new: "written w = written w0 @ new"
    using assms(1) by (metis append_take_drop_id grows_def)
  with assms(1) have all: "list_all (\<lambda>x. P (snd x)) new"
    by (simp add: grows_def new_writes_def)
  show ?thesis
  proof (cases "updated_record tid st kws w")
    case None
    with new all show ?thesis
      by (simp add: grows_def new_writes_def update_written)
  next
    case (Some td)
    then have "P td"
      by (rule assms(2))
    with Some new all show ?thesis
      by (simp add: grows_def new_writes_def update_written)
  qed
qed

lemma named_update_other:
  assumes "grows (\<lambda>td. status td = SUCCESS \<longrightarrow> output_file td = Some n) w0 w"
    and "st \<noteq> SUCCESS"
  shows "grows (\<lambda>td. status td = SUCCESS \<longrightarrow> output_file td = Some n) w0
           (snd (update_task_status tid st kws w))"
  using assms(1)
proof (rule grows_update)
  fix td
  assume "updated_record tid st kws w = Some td"
  then have "status td = st"
    by (simp add: updated_record_fields)
  with assms(2) show "status td = SUCCESS \<longrightarrow> output_file td = Some n"
    by simp
qed

lemma named_update_success:
  assumes "grows (\<lambda>td. status td = SUCCESS \<longrightarrow> output_file td = Some n) w0 w"
  shows "grows (\<lambda>td. status td = SUCCESS \<longrightarrow> output_file td = Some n) w0
           (snd (update_task_status tid st [Message m, Output_file n, File_size z] w))"
  using assms
proof (rule grows_update)
  fix td
  assume "updated_record tid st [Message m, Output_file n, File_size z] w = Some td"
  then show "status td = SUCCESS \<longrightarrow> output_file td = Some n"
    by (simp add: updated_record_success)
qed

lemma merge_try_named:
  "grows (\<lambda>td. status td = SUCCESS \<longrightarrow> output_file td = Some (''merged_'' @ tid @ ''.mp4'')) w
     (snd (merge_try eng tid vp ap w))"
  by (simp add: merge_try_def Let_def case_prod_beta named_update_other named_update_success
        split: option.split sum.split del: fst_update)

lemma process_merge_named:
  "list_all (\<lambda>x. status (snd x) = SUCCESS \<longrightarrow>
                     output_file (snd x) = Some (''merged_'' @ tid @ ''.mp4''))
     (new_writes w (process_merge_video_audio eng tid vp ap w))"
proof -
  let ?P = "\<lambda>td. status td = SUCCESS \<longrightarrow> output_file td = Some (''merged_'' @ tid @ ''.mp4'')"
  have g: "grows ?P w (snd (merge_try eng tid vp ap w))"
    by (rule merge_try_named)
  have "grows ?P w (process_merge_video_audio eng tid vp ap w)"
  proof (cases "fst (merge_try eng tid vp ap w)")
    case None
    then have "process_merge_video_audio eng tid vp ap w =
        remove_temp_files vp ap (snd (merge_try eng tid vp ap w))"
      by (simp add: process_merge_video_audio_def case_prod_beta)
    with g show ?thesis
      by (simp only: grows_frame)
  next
    case (Some e)
    then have "process_merge_video_audio eng tid vp ap w =
        remove_temp_files vp ap
          (snd (update_task_status tid FAILED
                  [Message (''Error processing merge: '' @ exn_str e), Error (exn_str e)]
                  (snd (merge_try eng tid vp ap w))))"
      by (simp add: process_merge_video_audio_def case_prod_beta)
    moreover have "grows ?P w
        (snd (update_task_status tid FAILED
                [Message (''Error processing merge: '' @ exn_str e), Error (exn_str e)]
                (snd (merge_try eng tid vp ap w))))"
      using g by (rule named_update_other) simp
    ultimately show ?thesis
      by (simp only: grows_frame)
  qed
  then show ?thesis
    by (simp add: grows_def)
qed

lemma cleanup_output_subset:
  "e \<in> set (output_dir (cleanup_old_files w)) \<Longrightarrow> e \<in> set (output_dir w)"
  by (auto simp add: cleanup_old_files_def Let_def delete_all_output split: if_splits)

lemma merge_try_entries:
  "\<forall>e\<in>set (output_dir (snd (merge_try eng tid vp ap w))).
     e \<in> set (output_dir w) \<or> name e = ''merged_'' @ tid @ ''.mp4''"
  by (auto simp add: merge_try_def Let_def case_prod_beta
        split: option.split sum.split dest!: cleanup_output_subset)

lemma process_merge_entries:
  assumes "e \<in> set (output_dir (process_merge_video_audio eng tid vp ap w))"
  shows "e \<in> set (output_dir w) \<or> name e = ''merged_'' @ tid @ ''.mp4''"
proof -
  have "output_dir (process_merge_video_audio eng tid vp ap w) =
          output_dir (snd (merge_try eng tid vp ap w))"
    by (simp add: process_merge_video_audio_def case_prod_beta split: option.split)
  with assms have "e \<in> set (output_dir (snd (merge_try eng tid vp ap w)))"
    by (simp only:)
  with merge_try_entries show ?thesis
    by blast
qed

lemma loop_route_demo:
  "loop_video_to_audio demo_id (Some ''clip.mp4'') (Some ''song.mp3'') None empty_world =
     (Inr (\<lparr>r_task_id = demo_id, r_status = PENDING,
            r_message = ''Video looping task created successfully. ''
                        @ ''The video will be looped to match audio duration.'',
            r_created_at = 0\<rparr>,
           Job Process_merge_video_audio demo_id
             (''temp/video_'' @ demo_id @ ''.mp4'') (''temp/audio_'' @ demo_id @ ''.mp3'')),
      looping_world)"
  by (simp add: loop_video_to_audio_def suffix_clip suffix_song
        video_extensions_def audio_extensions_def create_task_def now_def save_task_def
        empty_world_def looping_world_def looping_task_def Let_def)

lemma looping_fields [simp]:
  "tasks looping_world demo_id = Some looping_task"
  "output_dir looping_world = []"
  "max_output_files looping_world = 10"
  "clock looping_world = 2"
  "write_raises looping_world = (\<lambda>_. None)"
  "write_count looping_world = 1"
  "open_clips looping_world = []"
  "written looping_world = [(demo_id, looping_task)]"
  by (simp_all add: looping_world_def)

lemma known_looping [simp]: "known demo_id looping_world"
  by (simp add: known_iff)

lemma looping_run_output:
  "map name (output_dir (process_merge_video_audio (steady_engine 10 25) demo_id
       (''temp/video_'' @ demo_id @ ''.mp4'') (''temp/audio_'' @ demo_id @ ''.mp3'')
       looping_world)) = [''merged_'' @ demo_id @ ''.mp4'']"
  by (simp add: run_simps truediv_25_by_10 subclip_from_0 loop_def cleanup_under_limit)

lemma looping_run_statuses:
  "statuses looping_world
        (process_merge_video_audio (steady_engine 10 25) demo_id
           (''temp/video_'' @ demo_id @ ''.mp4'') (''temp/audio_'' @ demo_id @ ''.mp3'')
           looping_world) = [PROCESSING, PROCESSING, PROCESSING, SUCCESS]"
  by (simp add: run_simps truediv_25_by_10 subclip_from_0 loop_def)

text \<open>
  Claim C10.  A request that \<^verbatim>\<open>POST /loop-video-to-audio\<close> accepts creates a task of
  type \<^verbatim>\<open>loop_video\<close> and schedules \<^verbatim>\<open>process_merge_video_audio\<close> on it; running the
  scheduled job is running that function.  \<^verbatim>\<open>POST /merge\<close> accepts the same request and
  schedules the very same job (function and arguments), and every job it schedules is a
  call of \<^verbatim>\<open>process_merge_video_audio\<close>.  Whatever task that function runs on, every
  record it writes in state \<^verbatim>\<open>success\<close> names the output file \<^verbatim>\<open>merged_{task_id}.mp4\<close>,
  and the only entry it can add to the output directory has that name.
\<close>

theorem loop_route_runs_merge:
  "(loop_video_to_audio tid vf af io w = (Inr (resp, job), w1) \<longrightarrow>
      (\<exists>vp ap td. job = Job Process_merge_video_audio tid vp ap
          \<and> run_job eng job w1 = process_merge_video_audio eng tid vp ap w1
          \<and> fst (get_task tid w1) = Some td \<and> task_type td = ''loop_video'')
      \<and> (\<exists>resp' w1'. merge_video_audio tid vf af io w = (Inr (resp', job), w1')))
   \<and> (merge_video_audio tid vf af io w = (Inr (resp, job), w1) \<longrightarrow>
        (\<exists>vp ap. job = Job Process_merge_video_audio tid vp ap))
   \<and> list_all (\<lambda>x. status (snd x) = SUCCESS \<longrightarrow>
                     output_file (snd x) = Some (''merged_'' @ tid @ ''.mp4''))
        (new_writes w (process_merge_video_audio eng tid video_path audio_path w))
   \<and> (\<forall>e\<in>set (output_dir (process_merge_video_audio eng tid video_path audio_path w)).
         e \<in> set (output_dir w) \<or> name e = ''merged_'' @ tid @ ''.mp4'')"
proof (intro conjI impI ballI)
  assume a: "loop_video_to_audio tid vf af io w = (Inr (resp, job), w1)"
  from loop_route_pending[OF a] obtain td vp ap where
    "fst (get_task tid w1) = Some td" "task_type td = ''loop_video''"
    "job = Job Process_merge_video_audio tid vp ap"
    by blast
  then show "\<exists>vp ap td. job = Job Process_merge_video_audio tid vp ap
          \<and> run_job eng job w1 = process_merge_video_audio eng tid vp ap w1
          \<and> fst (get_task tid w1) = Some td \<and> task_type td = ''loop_video''"
    by auto
  from a show "\<exists>resp' w1'. merge_video_audio tid vf af io w = (Inr (resp', job), w1')"
    by (rule loop_accepts_as_merge)
next
  assume "merge_video_audio tid vf af io w = (Inr (resp, job), w1)"
  from merge_route_pending[OF this]
  show "\<exists>vp ap. job = Job Process_merge_video_audio tid vp ap"
    by blast
next
  show "list_all (\<lambda>x. status (snd x) = SUCCESS \<longrightarrow>
                     output_file (snd x) = Some (''merged_'' @ tid @ ''.mp4''))
        (new_writes w (process_merge_video_audio eng tid video_path audio_path w))"
    by (rule process_merge_named)
next
  fix e
  assume "e \<in> set (output_dir (process_merge_video_audio eng tid video_path audio_path w))"
  then show "e \<in> set (output_dir w) \<or> name e = ''merged_'' @ tid @ ''.mp4''"
    by (rule process_merge_entries)
qed

text \<open>The same request through both routes, and the run of the looping task.\<close>

theorem loop_route_runs_merge_witness:
  "loop_video_to_audio demo_id (Some ''clip.mp4'') (Some ''song.mp3'') None empty_world =
     (Inr (\<lparr>r_task_id = demo_id, r_status = PENDING,
            r_message = ''Video looping task created successfully. ''
                        @ ''The video will be looped to match audio duration.'',
            r_created_at = 0\<rparr>,
           Job Process_merge_video_audio demo_id
             (''temp/video_'' @ demo_id @ ''.mp4'') (''temp/audio_'' @ demo_id @ ''.mp3'')),
      looping_world)
   \<and> (\<exists>resp' w1'.
        merge_video_audio demo_id (Some ''clip.mp4'') (Some ''song.mp3'') None empty_world =
          (Inr (resp', Job Process_merge_video_audio demo_id
             (''temp/video_'' @ demo_id @ ''.mp4'') (''temp/audio_'' @ demo_id @ ''.mp3'')),
           w1'))
   \<and> statuses looping_world
        (process_merge_video_audio (steady_engine 10 25) demo_id
           (''temp/video_'' @ demo_id @ ''.mp4'') (''temp/audio_'' @ demo_id @ ''.mp3'')
           looping_world) = [PROCESSING, PROCESSING, PROCESSING, SUCCESS]
   \<and> list_all (\<lambda>x. status (snd x) = SUCCESS \<longrightarrow>
                     output_file (snd x) = Some (''merged_'' @ demo_id @ ''.mp4''))
        (new_writes looping_world
           (process_merge_video_audio (steady_engine 10 25) demo_id
              (''temp/video_'' @ demo_id @ ''.mp4'') (''temp/audio_'' @ demo_id @ ''.mp3'')
              looping_world))
   \<and> map name (output_dir
        (process_merge_video_audio (steady_engine 10 25) demo_id
           (''temp/video_'' @ demo_id @ ''.mp4'') (''temp/audio_'' @ demo_id @ ''.mp3'')
           looping_world)) = [''merged_'' @ demo_id @ ''.mp4'']"
proof -
  note s = looping_run_statuses
  note r = loop_route_runs_merge[of demo_id "Some ''clip.mp4''" "Some ''song.mp3''" None
      empty_world _ _ looping_world "steady_engine 10 25",
      unfolded loop_route_demo]
  note n = loop_route_runs_merge[of demo_id "Some ''clip.mp4''" "Some ''song.mp3''" None
      looping_world _ _ _ "steady_engine 10 25"
      "''temp/video_'' @ demo_id @ ''.mp4''" "''temp/audio_'' @ demo_id @ ''.mp3''"]
  show ?thesis
    using r n s loop_route_demo looping_run_output by blast
qed

end
